theory Spec2Isabelle
  imports Complex_Main "HOL-Library.Multiset"
begin

section \<open>Tables\<close>

text \<open>
  A pandas cell is a string, a number or the missing value. The numbers of the tables are
  floating point in the program; the model computes with exact rationals, and every fit,
  score and parser of the third-party libraries is a parameter of the model.
\<close>

datatype cell = Text string | Num rat | NaN

datatype error = ValueError | KeyError | AttributeError | LibraryError

text \<open>
  A DataFrame: the row labels, the column labels, and the cells row by row (each row in the
  order of the columns).
\<close>

record frame =
  index :: "cell list"
  columns :: "cell list"
  rows :: "cell list list"

definition isnull :: "cell \<Rightarrow> bool" where
  "isnull c = (c = NaN)"

definition cell_at :: "cell list \<Rightarrow> nat \<Rightarrow> cell" where
  "cell_at r j = (if j < length r then r ! j else NaN)"

definition drop_nth :: "nat \<Rightarrow> 'a list \<Rightarrow> 'a list" where
  "drop_nth j xs = take j xs @ drop (Suc j) xs"

primrec position :: "'a \<Rightarrow> 'a list \<Rightarrow> nat option" where
  "position a [] = None"
| "position a (x # xs) = (if x = a then Some 0 else map_option Suc (position a xs))"

text \<open>
  A well-formed frame: one label per row, one cell per column in every row, and no label
  twice on either axis.
\<close>

definition wf_frame :: "frame \<Rightarrow> bool" where
  "wf_frame d =
     (length (index d) = length (rows d) \<and>
      list_all (\<lambda>r. length r = length (columns d)) (rows d) \<and>
      distinct (index d) \<and> distinct (columns d))"

text \<open>
  \<^verbatim>\<open>df.set_index(key, verify_integrity=True)\<close>: the column \<open>key\<close> becomes the index and
  leaves the columns; KeyError when there is no such column, ValueError when the new index
  has a duplicate.
\<close>

definition set_index :: "cell \<Rightarrow> frame \<Rightarrow> error + frame" where
  "set_index key d =
     (case position key (columns d) of
        None \<Rightarrow> Inl KeyError
      | Some j \<Rightarrow>
          (let ids = map (\<lambda>r. cell_at r j) (rows d)
           in if distinct ids
              then Inr \<lparr>index = ids, columns = drop_nth j (columns d),
                        rows = map (drop_nth j) (rows d)\<rparr>
              else Inl ValueError))"

text \<open>\<^verbatim>\<open>df[labels]\<close> with a list of labels: those columns in that order, KeyError when one is absent.\<close>

definition pick :: "cell list \<Rightarrow> cell list \<Rightarrow> 'a list \<Rightarrow> 'a list" where
  "pick labels cols xs =
     concat (map (\<lambda>l. map snd (filter (\<lambda>p. fst p = l) (zip cols xs))) labels)"

definition getitem_columns :: "cell list \<Rightarrow> frame \<Rightarrow> error + frame" where
  "getitem_columns labels d =
     (if set labels \<subseteq> set (columns d)
      then Inr (d\<lparr>columns := pick labels (columns d) (columns d),
                  rows := map (pick labels (columns d)) (rows d)\<rparr>)
      else Inl KeyError)"

text \<open>\<^verbatim>\<open>df.drop(labels, axis=0)\<close> and \<^verbatim>\<open>df.drop(labels, axis=1)\<close>, for labels of the frame.\<close>

definition drop_rows :: "cell list \<Rightarrow> frame \<Rightarrow> frame" where
  "drop_rows labels d =
     (let keep = filter (\<lambda>p. fst p \<notin> set labels) (zip (index d) (rows d))
      in d\<lparr>index := map fst keep, rows := map snd keep\<rparr>)"

definition keep_cols :: "cell list \<Rightarrow> cell list \<Rightarrow> 'a list \<Rightarrow> 'a list" where
  "keep_cols labels cols xs = map snd (filter (\<lambda>p. fst p \<notin> set labels) (zip cols xs))"

definition drop_columns :: "cell list \<Rightarrow> frame \<Rightarrow> frame" where
  "drop_columns labels d =
     d\<lparr>columns := keep_cols labels (columns d) (columns d),
       rows := map (keep_cols labels (columns d)) (rows d)\<rparr>"

text \<open>\<^verbatim>\<open>df.iloc[:, :n]\<close>: the first \<open>n\<close> columns (all of them when there are fewer).\<close>

definition iloc_cols :: "nat \<Rightarrow> frame \<Rightarrow> frame" where
  "iloc_cols n d = d\<lparr>columns := take n (columns d), rows := map (take n) (rows d)\<rparr>"

section \<open>Preprocessing\<close>

text \<open>
  \<^verbatim>\<open>pd.to_numeric(..., errors='coerce')\<close> on one cell, over the library's parser of numeric
  text: text that does not parse becomes the missing value.
\<close>

definition to_numeric :: "(string \<Rightarrow> rat option) \<Rightarrow> cell \<Rightarrow> cell" where
  "to_numeric parse c =
     (case c of
        Text s \<Rightarrow> (case parse s of Some v \<Rightarrow> Num v | None \<Rightarrow> NaN)
      | Num v \<Rightarrow> Num v
      | NaN \<Rightarrow> NaN)"

text \<open>
  \<^verbatim>\<open>Preprocessing.__init__\<close>, from the table \<^verbatim>\<open>pd.read_csv\<close> returned (its default index is
  replaced at once). \<open>varlist = []\<close> stands for both \<^verbatim>\<open>None\<close> and the empty list, which
  \<^verbatim>\<open>if varlist:\<close> treats alike. The conversion is by position: every column but the first.
\<close>

definition Preprocessing_init ::
  "(string \<Rightarrow> rat option) \<Rightarrow> frame \<Rightarrow> cell list \<Rightarrow> error + frame" where
  "Preprocessing_init parse csv varlist =
     (case set_index (Text ''Country Code'') csv of
        Inl e \<Rightarrow> Inl e
      | Inr d \<Rightarrow>
          (case (if varlist \<noteq> [] then getitem_columns (Text ''Country Name'' # varlist) d
                 else Inr d) of
             Inl e \<Rightarrow> Inl e
           | Inr d1 \<Rightarrow>
               Inr (d1\<lparr>rows := map (\<lambda>r. take 1 r @ map (to_numeric parse) (drop 1 r))
                                    (rows d1)\<rparr>)))"

text \<open>
  The counts of \<^verbatim>\<open>self.df.isnull().sum(axis=...)\<close>: per row over all its cells, per column
  over all rows.
\<close>

definition missing_per_row :: "frame \<Rightarrow> nat list" where
  "missing_per_row d = map (\<lambda>r. length (filter isnull r)) (rows d)"

definition missing_per_column :: "frame \<Rightarrow> nat list" where
  "missing_per_column d =
     map (\<lambda>j. length (filter (\<lambda>r. isnull (cell_at r j)) (rows d))) [0..<length (columns d)]"

definition poor :: "rat \<Rightarrow> nat \<Rightarrow> cell list \<Rightarrow> nat list \<Rightarrow> cell list" where
  "poor p len labels counts =
     map fst (filter (\<lambda>lc. of_nat (snd lc) > p * of_nat len) (zip labels counts))"

text \<open>
  \<^verbatim>\<open>dropPoorFeatures(axis, p)\<close>. \<^verbatim>\<open>int(not axis)\<close> sums along the columns for \<open>axis = 0\<close>
  and along the rows for every other value; \<open>length\<close> is the number of columns for
  \<open>axis = 0\<close> and the number of rows otherwise; \<^verbatim>\<open>df.drop\<close> raises ValueError for an axis
  other than 0 and 1. The result is the held table after the drop and the dropped labels.
\<close>

definition dropPoorFeatures :: "int \<Rightarrow> rat \<Rightarrow> frame \<Rightarrow> error + (frame \<times> cell list)" where
  "dropPoorFeatures axis p d =
     (let poor_features =
            (if axis = 0 then poor p (length (columns d)) (index d) (missing_per_row d)
             else poor p (length (rows d)) (columns d) (missing_per_column d))
      in if axis = 0 then Inr (drop_rows poor_features d, poor_features)
         else if axis = 1 then Inr (drop_columns poor_features d, poor_features)
         else Inl ValueError)"



text \<open>The cells of a row in the numeric fields: every column but the display name.\<close>

definition numeric_cells :: "frame \<Rightarrow> cell list \<Rightarrow> cell list" where
  "numeric_cells d r = keep_cols [Text ''Country Name''] (columns d) r"

text \<open>A parser of unsigned decimal numerals, to run the model on concrete tables.\<close>

definition digit_value :: "char \<Rightarrow> nat option" where
  "digit_value c = position c ''0123456789''"

primrec parse_digits :: "nat \<Rightarrow> string \<Rightarrow> nat option" where
  "parse_digits acc [] = Some acc"
| "parse_digits acc (c # cs) =
     (case digit_value c of None \<Rightarrow> None | Some v \<Rightarrow> parse_digits (10 * acc + v) cs)"

definition parse_decimal :: "string \<Rightarrow> rat option" where
  "parse_decimal s = (if s = [] then None else map_option of_nat (parse_digits 0 s))"

text \<open>Tables to run the model on.\<close>

definition mixed_table :: frame where
  "mixed_table =
     \<lparr>index = [Text ''IT'', Text ''XX'', Text ''FR''],
      columns = [Text ''Country Name'', Text ''GDP'', Text ''CPI''],
      rows = [[Text ''Italy'', Num 1, Num 2], [NaN, NaN, NaN], [Text ''France'', NaN, Num 3]]\<rparr>"

definition one_field_table :: frame where
  "one_field_table =
     \<lparr>index = [Text ''IT''],
      columns = [Text ''Country Name'', Text ''GDP''],
      rows = [[Text ''Italy'', NaN]]\<rparr>"

definition name_last_csv :: frame where
  "name_last_csv =
     \<lparr>index = [],
      columns = [Text ''Country Code'', Text ''GDP'', Text ''Country Name''],
      rows = [[Text ''IT'', Text ''..'', Text ''Italy'']]\<rparr>"

definition is_numeric :: "cell \<Rightarrow> bool" where
  "is_numeric c = (case c of Text s \<Rightarrow> False | Num v \<Rightarrow> True | NaN \<Rightarrow> True)"

section \<open>Clustering\<close>

text \<open>
  The state of numpy's global random generator: the seed it was last given and how much
  has been drawn since. \<^verbatim>\<open>np.random.seed(s)\<close> resets it.
\<close>

datatype rng = RandomState int nat

definition np_random_seed :: "int \<Rightarrow> rng" where
  "np_random_seed s = RandomState s 0"

type_synonym labels = "int list"
type_synonym links = "rat list list"
type_synonym groups = "(int \<times> cell list) list"

text \<open>
  The third-party routines the class calls, as parameters: each either raises or returns,
  and those that draw from numpy's global generator take its state and return the new one.
  \<open>set_iter xs\<close> is the order in which Python iterates over \<^verbatim>\<open>set(xs)\<close>, which the language
  leaves to the implementation. Plotting and printing change nothing of the session and
  are left out.
\<close>

record library =
  sklearn_scale :: "cell list list \<Rightarrow> error + cell list list"
  PCA_fit_transform :: "frame \<Rightarrow> error + cell list list"
  fastcluster_linkage :: "frame \<Rightarrow> string \<Rightarrow> string \<Rightarrow> error + links"
  hierarchy_fcluster :: "links \<Rightarrow> rat option \<Rightarrow> error + labels"
  HDBSCAN_fit_predict :: "int \<Rightarrow> frame \<Rightarrow> error + labels"
  BayesianGaussianMixture_fit_predict ::
    "int \<Rightarrow> string \<Rightarrow> int \<Rightarrow> rng \<Rightarrow> frame \<Rightarrow> (error + labels) \<times> rng"
  GaussianMixture_fit_predict ::
    "int \<Rightarrow> string \<Rightarrow> int \<Rightarrow> rng \<Rightarrow> frame \<Rightarrow> (error + labels) \<times> rng"
  GaussianMixture_fit_bic ::
    "int \<Rightarrow> string \<Rightarrow> int \<Rightarrow> rng \<Rightarrow> frame \<Rightarrow> (error + rat) \<times> rng"
  KMeans_fit_predict :: "int \<Rightarrow> int \<Rightarrow> rng \<Rightarrow> frame \<Rightarrow> (error + labels) \<times> rng"
  silhouette_score :: "frame \<Rightarrow> labels \<Rightarrow> error + rat"
  calinski_harabaz_score :: "frame \<Rightarrow> labels \<Rightarrow> error + rat"
  set_iter :: "int list \<Rightarrow> int list"

text \<open>
  The attributes of a \<^verbatim>\<open>Clustering\<close> object. \<open>df_pc = None\<close> and \<open>min_BIC = None\<close> say that
  the attribute does not exist yet. numpy's global generator is kept with the session.
\<close>

record session =
  df :: frame
  country_names :: "cell list"
  df_pc :: "frame option"
  link :: "links option"
  clusterings :: "string \<rightharpoonup> groups"
  min_BIC :: "(int \<times> rat) option"
  random_state :: rng

text \<open>Python's \<^verbatim>\<open>str\<close> of an integer.\<close>

fun str_nat :: "nat \<Rightarrow> string" where
  "str_nat n =
     (if n < 10 then [''0123456789'' ! n]
      else str_nat (n div 10) @ [''0123456789'' ! (n mod 10)])"

definition str_int :: "int \<Rightarrow> string" where
  "str_int i = (if i < 0 then CHR ''-'' # str_nat (nat (- i)) else str_nat (nat i))"

text \<open>
  \<^verbatim>\<open>Clustering.__init__\<close>, from the table \<^verbatim>\<open>pd.read_csv\<close> returned and the state of the
  global generator.
\<close>

definition Clustering_init :: "library \<Rightarrow> frame \<Rightarrow> rng \<Rightarrow> error + session" where
  "Clustering_init lib csv g =
     (case set_index (Text ''Country Code'') csv of
        Inl e \<Rightarrow> Inl e
      | Inr d \<Rightarrow>
          (case position (Text ''Country Name'') (columns d) of
             None \<Rightarrow> Inl KeyError
           | Some j \<Rightarrow>
               (let names = map (\<lambda>r. cell_at r j) (rows d);
                    d1 = drop_columns [Text ''Country Name''] d
                in case sklearn_scale lib (rows d1) of
                     Inl e \<Rightarrow> Inl e
                   | Inr vs \<Rightarrow>
                       Inr \<lparr>df = d1\<lparr>rows := vs\<rparr>, country_names = names, df_pc = None,
                            link = None, clusterings = Map.empty, min_BIC = None,
                            random_state = g\<rparr>)))"

text \<open>
  \<^verbatim>\<open>getPC\<close>: the scores get the entity index and the default column labels 0, 1, ...
  The fitted \<^verbatim>\<open>self.pca\<close> is read by the plot only and is not kept in the model.
\<close>

definition getPC :: "library \<Rightarrow> session \<Rightarrow> (error + unit) \<times> session" where
  "getPC lib st =
     (case PCA_fit_transform lib (df st) of
        Inl e \<Rightarrow> (Inl e, st)
      | Inr vs \<Rightarrow>
          (Inr (),
           st\<lparr>df_pc := Some \<lparr>index = index (df st),
                               columns = map (\<lambda>j. Num (of_nat j))
                                             [0..<(case vs of [] \<Rightarrow> 0 | r # _ \<Rightarrow> length r)],
                               rows = vs\<rparr>\<rparr>))"

text \<open>
  \<^verbatim>\<open>clustersTable\<close>: the pairs (label, name) sorted by label (Python's sort is stable), the
  distinct labels in the iteration order of a Python set, and for each label its names.
  For no labels at all the DataFrame has no column, and naming its two columns raises
  ValueError.
\<close>

definition clustersTable :: "(int list \<Rightarrow> int list) \<Rightarrow> labels \<Rightarrow> cell list \<Rightarrow> error + groups" where
  "clustersTable iter clustering names =
     (let lis = sort_key fst (zip clustering names);
          groups = iter (map fst lis)
      in if groups = [] then Inl ValueError
         else Inr (zip groups (map (\<lambda>x. map snd (filter (\<lambda>y. fst y = x) lis)) groups)))"

text \<open>\<^verbatim>\<open>self.clusterings[name] = self.clustersTable(labels)\<close>\<close>

definition store_clustering ::
  "library \<Rightarrow> string \<Rightarrow> labels \<Rightarrow> session \<Rightarrow> (error + unit) \<times> session" where
  "store_clustering lib name clustering st =
     (case clustersTable (set_iter lib) clustering (country_names st) of
        Inl e \<Rightarrow> (Inl e, st)
      | Inr table \<Rightarrow> (Inr (), st\<lparr>clusterings := (clusterings st)(name \<mapsto> table)\<rparr>))"

text \<open>
  The head of every clustering method:
  \<^verbatim>\<open>if on_PC > 0: df = self.df_pc.iloc[:, :on_PC+1]  else: df = self.df\<close>.
  Reading \<^verbatim>\<open>self.df_pc\<close> before \<^verbatim>\<open>getPC\<close> has set it raises AttributeError. Each method
  below is this head followed by its body on the frame \<open>df\<close> (the definition with the
  suffix \<open>_on\<close>).
\<close>

definition on_PC_frame :: "int \<Rightarrow> session \<Rightarrow> error + frame" where
  "on_PC_frame on_PC st =
     (if on_PC > 0
      then (case df_pc st of
              None \<Rightarrow> Inl AttributeError
            | Some pc \<Rightarrow> Inr (iloc_cols (nat (on_PC + 1)) pc))
      else Inr (df st))"

datatype method_arg = Method string | Methods "string list"

definition methods_of :: "method_arg \<Rightarrow> string list" where
  "methods_of method =
     (case method of
        Method m \<Rightarrow>
          (if m = ''all''
           then [''average'', ''complete'', ''single'', ''weighted'', ''centroid'', ''median'',
                 ''ward'']
           else [m])
      | Methods ms \<Rightarrow> ms)"

fun hierarchical_loop ::
  "library \<Rightarrow> frame \<Rightarrow> string \<Rightarrow> rat option \<Rightarrow> string list \<Rightarrow> session \<Rightarrow> (error + unit) \<times> session"
where
  "hierarchical_loop lib d metric threshold [] st = (Inr (), st)"
| "hierarchical_loop lib d metric threshold (met # mets) st =
     (case fastcluster_linkage lib d metric met of
        Inl e \<Rightarrow> (Inl e, st)
      | Inr links \<Rightarrow>
          (let st1 = st\<lparr>link := Some links\<rparr>
           in case hierarchy_fcluster lib links threshold of
                Inl e \<Rightarrow> (Inl e, st1)
              | Inr clustering \<Rightarrow>
                  (case store_clustering lib (''hierarchical_'' @ met @ ''_'' @ metric)
                          clustering st1 of
                     (Inl e, st2) \<Rightarrow> (Inl e, st2)
                   | (Inr u, st2) \<Rightarrow> hierarchical_loop lib d metric threshold mets st2)))"

definition hierarchicalClustering_on ::
  "library \<Rightarrow> string \<Rightarrow> method_arg \<Rightarrow> rat option \<Rightarrow> frame \<Rightarrow> session \<Rightarrow>
     (error + unit) \<times> session" where
  "hierarchicalClustering_on lib metric method threshold d st =
     hierarchical_loop lib d metric threshold (methods_of method) st"

definition hierarchicalClustering ::
  "library \<Rightarrow> string \<Rightarrow> method_arg \<Rightarrow> rat option \<Rightarrow> int \<Rightarrow> session \<Rightarrow> (error + unit) \<times> session"
where
  "hierarchicalClustering lib metric method threshold on_PC st =
     (case on_PC_frame on_PC st of
        Inl e \<Rightarrow> (Inl e, st)
      | Inr d \<Rightarrow> hierarchicalClustering_on lib metric method threshold d st)"

definition hdbscan_on :: "library \<Rightarrow> int \<Rightarrow> frame \<Rightarrow> session \<Rightarrow> (error + unit) \<times> session" where
  "hdbscan_on lib min_cluster_size d st =
     (case HDBSCAN_fit_predict lib min_cluster_size d of
        Inl e \<Rightarrow> (Inl e, st)
      | Inr clustering \<Rightarrow> store_clustering lib ''hdbscan'' clustering st)"

definition hdbscan :: "library \<Rightarrow> int \<Rightarrow> int \<Rightarrow> session \<Rightarrow> (error + unit) \<times> session" where
  "hdbscan lib min_cluster_size on_PC st =
     (case on_PC_frame on_PC st of
        Inl e \<Rightarrow> (Inl e, st)
      | Inr d \<Rightarrow> hdbscan_on lib min_cluster_size d st)"

definition bayesianGaussianMixture_on ::
  "library \<Rightarrow> int \<Rightarrow> string \<Rightarrow> int \<Rightarrow> frame \<Rightarrow> session \<Rightarrow> (error + unit) \<times> session" where
  "bayesianGaussianMixture_on lib n_components covariance_type n_init d st =
     (case BayesianGaussianMixture_fit_predict lib n_components covariance_type n_init
             (random_state st) d of
        (Inl e, g) \<Rightarrow> (Inl e, st\<lparr>random_state := g\<rparr>)
      | (Inr clustering, g) \<Rightarrow>
          store_clustering lib (''bayesian gm'' @ str_int n_components) clustering
            (st\<lparr>random_state := g\<rparr>))"

definition bayesianGaussianMixture ::
  "library \<Rightarrow> int \<Rightarrow> string \<Rightarrow> int \<Rightarrow> int \<Rightarrow> session \<Rightarrow> (error + unit) \<times> session" where
  "bayesianGaussianMixture lib n_components covariance_type n_init on_PC st =
     (case on_PC_frame on_PC st of
        Inl e \<Rightarrow> (Inl e, st)
      | Inr d \<Rightarrow> bayesianGaussianMixture_on lib n_components covariance_type n_init d st)"

definition gaussianMixture_on ::
  "library \<Rightarrow> int \<Rightarrow> string \<Rightarrow> int \<Rightarrow> frame \<Rightarrow> session \<Rightarrow> (error + unit) \<times> session" where
  "gaussianMixture_on lib n_components covariance_type n_init d st =
     (case GaussianMixture_fit_predict lib n_components covariance_type n_init
             (random_state st) d of
        (Inl e, g) \<Rightarrow> (Inl e, st\<lparr>random_state := g\<rparr>)
      | (Inr clustering, g) \<Rightarrow>
          store_clustering lib (''gm'' @ str_int n_components) clustering
            (st\<lparr>random_state := g\<rparr>))"

definition gaussianMixture ::
  "library \<Rightarrow> int \<Rightarrow> string \<Rightarrow> int \<Rightarrow> int \<Rightarrow> session \<Rightarrow> (error + unit) \<times> session" where
  "gaussianMixture lib n_components covariance_type n_init on_PC st =
     (case on_PC_frame on_PC st of
        Inl e \<Rightarrow> (Inl e, st)
      | Inr d \<Rightarrow> gaussianMixture_on lib n_components covariance_type n_init d st)"

text \<open>\<^verbatim>\<open>[model.fit(df).bic(df) for model in models]\<close>, one fit after the other.\<close>

fun fit_bics ::
  "library \<Rightarrow> string \<Rightarrow> int \<Rightarrow> frame \<Rightarrow> int list \<Rightarrow> rng \<Rightarrow> (error + rat list) \<times> rng" where
  "fit_bics lib covariance_type n_init d [] g = (Inr [], g)"
| "fit_bics lib covariance_type n_init d (n # ns) g =
     (case GaussianMixture_fit_bic lib n covariance_type n_init g d of
        (Inl e, g1) \<Rightarrow> (Inl e, g1)
      | (Inr b, g1) \<Rightarrow>
          (case fit_bics lib covariance_type n_init d ns g1 of
             (Inl e, g2) \<Rightarrow> (Inl e, g2)
           | (Inr bs, g2) \<Rightarrow> (Inr (b # bs), g2)))"

text \<open>numpy's \<^verbatim>\<open>min\<close> and \<^verbatim>\<open>argmin\<close> of a non-empty array: the first index of the least value.\<close>

definition amin :: "rat list \<Rightarrow> rat" where
  "amin bs = fold min (tl bs) (hd bs)"

definition argmin :: "rat list \<Rightarrow> nat" where
  "argmin bs = length (takeWhile (\<lambda>b. b \<noteq> amin bs) bs)"

text \<open>
  \<^verbatim>\<open>gmBIC\<close>: \<^verbatim>\<open>np.arange(n_min, n_max)\<close> is empty unless \<open>n_min < n_max\<close>, and \<^verbatim>\<open>argmin\<close> of
  an empty array raises ValueError.
\<close>

definition gmBIC_on ::
  "library \<Rightarrow> int \<Rightarrow> int \<Rightarrow> string \<Rightarrow> int \<Rightarrow> frame \<Rightarrow> session \<Rightarrow> (error + unit) \<times> session" where
  "gmBIC_on lib n_min n_max covariance_type n_init d st =
     (case fit_bics lib covariance_type n_init d [n_min..n_max - 1] (random_state st) of
        (Inl e, g) \<Rightarrow> (Inl e, st\<lparr>random_state := g\<rparr>)
      | (Inr bics, g) \<Rightarrow>
          (if bics = [] then (Inl ValueError, st\<lparr>random_state := g\<rparr>)
           else (Inr (),
                 st\<lparr>random_state := g,
                    min_BIC := Some (int (argmin bics) + 1, amin bics)\<rparr>)))"

definition gmBIC ::
  "library \<Rightarrow> int \<Rightarrow> int \<Rightarrow> string \<Rightarrow> int \<Rightarrow> int \<Rightarrow> session \<Rightarrow> (error + unit) \<times> session" where
  "gmBIC lib n_min n_max covariance_type n_init on_PC st =
     (case on_PC_frame on_PC st of
        Inl e \<Rightarrow> (Inl e, st)
      | Inr d \<Rightarrow> gmBIC_on lib n_min n_max covariance_type n_init d st)"

definition benchClustering :: "library \<Rightarrow> labels \<Rightarrow> frame \<Rightarrow> error + (rat \<times> rat)" where
  "benchClustering lib clustering d =
     (case silhouette_score lib d clustering of
        Inl e \<Rightarrow> Inl e
      | Inr silh \<Rightarrow>
          (case calinski_harabaz_score lib d clustering of
             Inl e \<Rightarrow> Inl e
           | Inr cal_har \<Rightarrow> Inr (silh, cal_har)))"

text \<open>
  The fit of \<^verbatim>\<open>kmeans\<close>: the global generator is seeded with 42, then \<^verbatim>\<open>KMeans\<close> draws its
  initial centroids from it. The result is the labels (or the error) and the session with
  the generator as the fit left it.
\<close>

definition kmeans_fit ::
  "library \<Rightarrow> int \<Rightarrow> int \<Rightarrow> frame \<Rightarrow> session \<Rightarrow> (error + labels) \<times> session" where
  "kmeans_fit lib n_clusters n_init d st =
     (case KMeans_fit_predict lib n_clusters n_init (np_random_seed 42) d of
        (r, g) \<Rightarrow> (r, st\<lparr>random_state := g\<rparr>))"

definition kmeans_on ::
  "library \<Rightarrow> int \<Rightarrow> int \<Rightarrow> bool \<Rightarrow> frame \<Rightarrow> session \<Rightarrow> (error + unit) \<times> session" where
  "kmeans_on lib n_clusters n_init evaluate d st =
     (case kmeans_fit lib n_clusters n_init d st of
        (Inl e, st1) \<Rightarrow> (Inl e, st1)
      | (Inr clustering, st1) \<Rightarrow>
          (case store_clustering lib (''kmeans'' @ str_int n_clusters) clustering st1 of
             (Inl e, st2) \<Rightarrow> (Inl e, st2)
           | (Inr u, st2) \<Rightarrow>
               (if evaluate
                then (case benchClustering lib clustering d of
                        Inl e \<Rightarrow> (Inl e, st2)
                      | Inr scores \<Rightarrow> (Inr (), st2))
                else (Inr (), st2))))"

definition kmeans ::
  "library \<Rightarrow> int \<Rightarrow> int \<Rightarrow> int \<Rightarrow> bool \<Rightarrow> session \<Rightarrow> (error + unit) \<times> session" where
  "kmeans lib n_clusters on_PC n_init evaluate st =
     (case on_PC_frame on_PC st of
        Inl e \<Rightarrow> (Inl e, st)
      | Inr d \<Rightarrow> kmeans_on lib n_clusters n_init evaluate d st)"

text \<open>The loop of \<^verbatim>\<open>multipleKmeans\<close> over \<open>ks\<close>, collecting the two score arrays.\<close>

fun kmeans_loop ::
  "library \<Rightarrow> int \<Rightarrow> frame \<Rightarrow> int list \<Rightarrow> session \<Rightarrow> (error + (rat list \<times> rat list)) \<times> session"
where
  "kmeans_loop lib n_init d [] st = (Inr ([], []), st)"
| "kmeans_loop lib n_init d (k # ks) st =
     (case kmeans_fit lib k n_init d st of
        (Inl e, st1) \<Rightarrow> (Inl e, st1)
      | (Inr clustering, st1) \<Rightarrow>
          (case store_clustering lib (''kmeans'' @ str_int k) clustering st1 of
             (Inl e, st2) \<Rightarrow> (Inl e, st2)
           | (Inr u, st2) \<Rightarrow>
               (case silhouette_score lib d clustering of
                  Inl e \<Rightarrow> (Inl e, st2)
                | Inr s \<Rightarrow>
                    (case calinski_harabaz_score lib d clustering of
                       Inl e \<Rightarrow> (Inl e, st2)
                     | Inr c \<Rightarrow>
                         (case kmeans_loop lib n_init d ks st2 of
                            (Inl e, st3) \<Rightarrow> (Inl e, st3)
                          | (Inr (silh, cal_har), st3) \<Rightarrow>
                              (Inr (s # silh, c # cal_har), st3))))))"

text \<open>\<^verbatim>\<open>multipleKmeans\<close>: \<^verbatim>\<open>np.zeros(k_max - k_min)\<close> raises ValueError for a negative size.\<close>

definition multipleKmeans_on ::
  "library \<Rightarrow> int \<Rightarrow> int \<Rightarrow> int \<Rightarrow> frame \<Rightarrow> session \<Rightarrow>
     (error + (rat list \<times> rat list)) \<times> session" where
  "multipleKmeans_on lib k_min k_max n_init d st =
     (if k_max - k_min < 0 then (Inl ValueError, st)
      else kmeans_loop lib n_init d [k_min..k_max - 1] st)"

definition multipleKmeans ::
  "library \<Rightarrow> int \<Rightarrow> int \<Rightarrow> int \<Rightarrow> int \<Rightarrow> session \<Rightarrow>
     (error + (rat list \<times> rat list)) \<times> session" where
  "multipleKmeans lib k_min k_max on_PC n_init st =
     (case on_PC_frame on_PC st of
        Inl e \<Rightarrow> (Inl e, st)
      | Inr d \<Rightarrow> multipleKmeans_on lib k_min k_max n_init d st)"

text \<open>
  A session is a sequence of calls; a call that raises leaves the object as it was at the
  raise, and the next call goes on from there.
\<close>

datatype call =
    GetPC
  | HierarchicalClustering string method_arg "rat option" int
  | Hdbscan int int
  | BayesianGaussianMixture int string int int
  | GaussianMixture int string int int
  | GmBIC int int string int int
  | Kmeans int int int bool
  | MultipleKmeans int int int int

fun run :: "library \<Rightarrow> call \<Rightarrow> session \<Rightarrow> session" where
  "run lib GetPC st = snd (getPC lib st)"
| "run lib (HierarchicalClustering metric method threshold on_PC) st =
     snd (hierarchicalClustering lib metric method threshold on_PC st)"
| "run lib (Hdbscan min_cluster_size on_PC) st = snd (hdbscan lib min_cluster_size on_PC st)"
| "run lib (BayesianGaussianMixture n covariance_type n_init on_PC) st =
     snd (bayesianGaussianMixture lib n covariance_type n_init on_PC st)"
| "run lib (GaussianMixture n covariance_type n_init on_PC) st =
     snd (gaussianMixture lib n covariance_type n_init on_PC st)"
| "run lib (GmBIC n_min n_max covariance_type n_init on_PC) st =
     snd (gmBIC lib n_min n_max covariance_type n_init on_PC st)"
| "run lib (Kmeans n_clusters on_PC n_init evaluate) st =
     snd (kmeans lib n_clusters on_PC n_init evaluate st)"
| "run lib (MultipleKmeans k_min k_max on_PC n_init) st =
     snd (multipleKmeans lib k_min k_max on_PC n_init st)"

definition run_all :: "library \<Rightarrow> call list \<Rightarrow> session \<Rightarrow> session" where
  "run_all lib calls st = fold (run lib) calls st"

text \<open>The run names a call can write.\<close>

fun run_names :: "call \<Rightarrow> string set" where
  "run_names GetPC = {}"
| "run_names (HierarchicalClustering metric method threshold on_PC) =
     (\<lambda>met. ''hierarchical_'' @ met @ ''_'' @ metric) ` set (methods_of method)"
| "run_names (Hdbscan min_cluster_size on_PC) = {''hdbscan''}"
| "run_names (BayesianGaussianMixture n covariance_type n_init on_PC) =
     {''bayesian gm'' @ str_int n}"
| "run_names (GaussianMixture n covariance_type n_init on_PC) = {''gm'' @ str_int n}"
| "run_names (GmBIC n_min n_max covariance_type n_init on_PC) = {}"
| "run_names (Kmeans n_clusters on_PC n_init evaluate) = {''kmeans'' @ str_int n_clusters}"
| "run_names (MultipleKmeans k_min k_max on_PC n_init) =
     (\<lambda>k. ''kmeans'' @ str_int k) ` {k_min..<k_max}"

text \<open>\<^verbatim>\<open>kmeans\<close> once for each count of the list, one call after the other.\<close>

definition kmeans_each :: "library \<Rightarrow> int list \<Rightarrow> int \<Rightarrow> int \<Rightarrow> bool \<Rightarrow> session \<Rightarrow> session" where
  "kmeans_each lib ks on_PC n_init evaluate st =
     fold (\<lambda>k s. snd (kmeans lib k on_PC n_init evaluate s)) ks st"

text \<open>
  CPython's iteration over a set of a few integers (at most four, no two in the same slot):
  the set is a table of eight slots, an integer sits in the slot \<open>hash & 7\<close>, and the
  iteration scans the slots in order. The hash of an integer is the integer itself, except
  that \<open>-1\<close> hashes to \<open>-2\<close>.
\<close>

definition py_hash :: "int \<Rightarrow> int" where
  "py_hash n = (let h = sgn n * (\<bar>n\<bar> mod (2 ^ 61 - 1)) in if h = - 1 then - 2 else h)"

definition cpython_small_set :: "int list \<Rightarrow> int list" where
  "cpython_small_set xs = sort_key (\<lambda>x. py_hash x mod 8) (remdups xs)"

text \<open>
  A library to run the model on: the fits assign the labels in turn, the k-means labels
  shifted by what the generator holds; the BIC of \<open>n\<close> components is \<open>(n - 3)\<^sup>2\<close>; the
  silhouette score refuses a single label, as scikit-learn's does.
\<close>

definition drawn :: "rng \<Rightarrow> rng" where
  "drawn g = (case g of RandomState s k \<Rightarrow> RandomState s (Suc k))"

definition offset :: "rng \<Rightarrow> int" where
  "offset g = (case g of RandomState s k \<Rightarrow> s + int k)"

definition labels_in_turn :: "int \<Rightarrow> int \<Rightarrow> frame \<Rightarrow> labels" where
  "labels_in_turn shift n d = map (\<lambda>i. (int i + shift) mod n) [0..<length (rows d)]"

definition toy_library :: library where
  "toy_library =
     \<lparr>sklearn_scale = Inr,
      PCA_fit_transform = (\<lambda>d. Inr (rows d)),
      fastcluster_linkage = (\<lambda>d metric met. Inr (map (\<lambda>r. [0]) (rows d))),
      hierarchy_fcluster = (\<lambda>l t. Inr (map (\<lambda>i. 1 + int i mod 2) [0..<length l])),
      HDBSCAN_fit_predict = (\<lambda>m d. Inr (map (\<lambda>i. int i mod 3 - 1) [0..<length (rows d)])),
      BayesianGaussianMixture_fit_predict =
        (\<lambda>n c i g d. if n < 1 then (Inl LibraryError, g) else (Inr (labels_in_turn 0 n d), drawn g)),
      GaussianMixture_fit_predict =
        (\<lambda>n c i g d. if n < 1 then (Inl LibraryError, g) else (Inr (labels_in_turn 0 n d), drawn g)),
      GaussianMixture_fit_bic =
        (\<lambda>n c i g d. if n < 1 then (Inl LibraryError, g) else (Inr (of_int ((n - 3) * (n - 3))), drawn g)),
      KMeans_fit_predict =
        (\<lambda>n i g d. if n < 1 then (Inl LibraryError, g)
                   else (Inr (labels_in_turn (offset g) n d), drawn g)),
      silhouette_score =
        (\<lambda>d l. if length (remdups l) < 2 then Inl ValueError else Inr (1 / of_nat (length (remdups l)))),
      calinski_harabaz_score = (\<lambda>d l. Inr (of_nat (length (remdups l)))),
      set_iter = cpython_small_set\<rparr>"

definition toy_csv :: frame where
  "toy_csv =
     \<lparr>index = [],
      columns = [Text ''Country Code'', Text ''Country Name'', Text ''x'', Text ''y'', Text ''z''],
      rows = [[Text ''A'', Text ''Aland'', Num 0, Num 0, Num 1],
              [Text ''B'', Text ''Bland'', Num 0, Num 1, Num 0],
              [Text ''C'', Text ''Cland'', Num 9, Num 9, Num 8],
              [Text ''D'', Text ''Dland'', Num 9, Num 8, Num 9]]\<rparr>"

definition toy_frame :: frame where
  "toy_frame =
     \<lparr>index = [Text ''A'', Text ''B'', Text ''C'', Text ''D''],
      columns = [Text ''x'', Text ''y'', Text ''z''],
      rows = [[Num 0, Num 0, Num 1], [Num 0, Num 1, Num 0], [Num 9, Num 9, Num 8],
              [Num 9, Num 8, Num 9]]\<rparr>"

definition toy_session :: session where
  "toy_session =
     \<lparr>df = toy_frame,
      country_names = [Text ''Aland'', Text ''Bland'', Text ''Cland'', Text ''Dland''],
      df_pc = None, link = None, clusterings = Map.empty, min_BIC = None,
      random_state = RandomState 7 0\<rparr>"




section \<open>Dropping sparse rows and columns\<close>

lemma map_fst_filter_zip:
  "length xs = length ys \<Longrightarrow> map fst (filter (\<lambda>p. Q (fst p)) (zip xs ys)) = filter Q xs"
  by (induction xs ys rule: list_induct2) auto


lemma index_drop_rows:
  "length (index d) = length (rows d) \<Longrightarrow>
   index (drop_rows labels d) = filter (\<lambda>l. l \<notin> set labels) (index d)"
  using map_fst_filter_zip [of "index d" "rows d" "\<lambda>l. l \<notin> set labels"]
  by (simp add: drop_rows_def Let_def)


lemma poor_mem:
  assumes "distinct labels" "length labels = length counts" "i < length labels"
  shows "(labels ! i \<in> set (poor p len labels counts)) = (of_nat (counts ! i) > p * of_nat len)"
proof
  assume "labels ! i \<in> set (poor p len labels counts)"
  then obtain c where m: "(labels ! i, c) \<in> set (zip labels counts)"
    and c: "of_nat c > p * of_nat len"
    by (auto simp: poor_def)
  from m obtain k where k: "k < length labels" "labels ! k = labels ! i" "counts ! k = c"
    using assms(2) by (auto simp: in_set_zip)
  with assms have "k = i" by (simp add: nth_eq_iff_index_eq)
  with k c show "of_nat (counts ! i) > p * of_nat len" by simp
next
  assume c: "of_nat (counts ! i) > p * of_nat len"
  have "(labels ! i, counts ! i) \<in> set (zip labels counts)"
    using assms by (auto simp: in_set_zip)
  with c show "labels ! i \<in> set (poor p len labels counts)"
    by (force simp: poor_def)
qed




lemma length_keep_cols:
  "length cols = length r \<Longrightarrow>
   length (keep_cols labels cols r) = length (filter (\<lambda>c. c \<notin> set labels) cols)"
  unfolding keep_cols_def by (induction cols r rule: list_induct2) auto








lemma dropPoorFeatures_returns:
  "dropPoorFeatures 0 p d =
     Inr (drop_rows (poor p (length (columns d)) (index d) (missing_per_row d)) d,
          poor p (length (columns d)) (index d) (missing_per_row d))"
  "dropPoorFeatures 1 p d =
     Inr (drop_columns (poor p (length (rows d)) (columns d) (missing_per_column d)) d,
          poor p (length (rows d)) (columns d) (missing_per_column d))"
  by (simp_all add: dropPoorFeatures_def Let_def)




section \<open>A row with every numeric field missing\<close>

lemma sub_count:
  "length xs = length ys \<Longrightarrow>
   length (filter Q (map snd (filter P (zip xs ys)))) \<le> length (filter Q ys)"
  by (induction xs ys rule: list_induct2) auto

lemma distinct_count_le_1: "distinct xs \<Longrightarrow> length (filter (\<lambda>x. x = a) xs) \<le> 1"
  by (induction xs) (auto simp: filter_empty_conv)

lemma all_null_count: "list_all isnull xs \<Longrightarrow> length (filter isnull xs) = length xs"
  by (induction xs) auto

text \<open>
  C6, as the spec states it, fails: with a single numeric field, a row that has its display
  name and no number has one entry of two missing, and one is not more than half of two.
\<close>

theorem dropPoorFeatures_one_field_counterexample:
  "wf_frame one_field_table \<and>
   list_all isnull (numeric_cells one_field_table (rows one_field_table ! 0)) \<and>
   index one_field_table ! 0 = Text ''IT'' \<and>
   dropPoorFeatures 0 (1 / 2) one_field_table = Inr (one_field_table, [])"
  by (simp add: wf_frame_def one_field_table_def numeric_cells_def keep_cols_def isnull_def
      dropPoorFeatures_def Let_def poor_def missing_per_row_def drop_rows_def)

text \<open>
  C6, amended: on a well-formed table with at least two numeric fields (columns other than
  the display name), a row whose numeric fields are all missing is among the labels that
  \<open>dropPoorFeatures\<close> removes for the rows at threshold one half.
\<close>

theorem dropPoorFeatures_all_missing_row:
  assumes wf: "wf_frame d" and i: "i < length (rows d)"
    and miss: "list_all isnull (numeric_cells d (rows d ! i))"
    and two: "2 \<le> length (numeric_cells d (rows d ! i))"
  shows "\<exists>d' removed. dropPoorFeatures 0 (1 / 2) d = Inr (d', removed) \<and>
           index d ! i \<in> set removed \<and> index d ! i \<notin> set (index d')"
proof -
  let ?r = "rows d ! i"
  let ?m = "length (numeric_cells d ?r)"
  let ?n = "length (columns d)"
  let ?c = "length (filter isnull ?r)"
  let ?removed = "poor (1 / 2) ?n (index d) (missing_per_row d)"
  from wf i have len: "length (index d) = length (rows d)" and dist: "distinct (index d)"
    and distc: "distinct (columns d)" and row: "length (columns d) = length ?r"
    by (auto simp: wf_frame_def list_all_length)
  have m: "?m = length (filter (\<lambda>c. c \<noteq> Text ''Country Name'') (columns d))"
    using length_keep_cols [OF row, of "[Text ''Country Name'']"] by (simp add: numeric_cells_def)
  have "?n = length (filter (\<lambda>c. c = Text ''Country Name'') (columns d)) + ?m"
    unfolding m using sum_length_filter_compl [of "\<lambda>c. c = Text ''Country Name''" "columns d"]
    by simp
  with distinct_count_le_1 [OF distc, of "Text ''Country Name''"] have n: "?n \<le> ?m + 1"
    by simp
  have "?m = length (filter isnull (numeric_cells d ?r))"
    using all_null_count [OF miss] by simp
  also have "\<dots> \<le> ?c"
    unfolding numeric_cells_def keep_cols_def using sub_count [OF row] .
  finally have c: "?m \<le> ?c" .
  from n c two have "?n < 2 * ?c" by simp
  then have "rat_of_nat ?n < rat_of_nat (2 * ?c)" by (simp only: of_nat_less_iff)
  then have big: "(1 / 2) * rat_of_nat ?n < rat_of_nat ?c" by simp
  have cnt: "missing_per_row d ! i = ?c" using i by (simp add: missing_per_row_def)
  have mem: "index d ! i \<in> set ?removed"
    using poor_mem [of "index d" "missing_per_row d" i "1 / 2" ?n] dist len i cnt big
    by (simp add: missing_per_row_def)
  have "index (drop_rows ?removed d) = filter (\<lambda>l. l \<notin> set ?removed) (index d)"
    using len by (rule index_drop_rows)
  with mem have "index d ! i \<notin> set (index (drop_rows ?removed d))" by simp
  with mem show ?thesis using dropPoorFeatures_returns(1) [of "1 / 2" d] by blast
qed

theorem dropPoorFeatures_all_missing_row_witness:
  "wf_frame mixed_table \<and> (1::nat) < length (rows mixed_table) \<and>
   list_all isnull (numeric_cells mixed_table (rows mixed_table ! 1)) \<and>
   2 \<le> length (numeric_cells mixed_table (rows mixed_table ! 1)) \<and>
   (\<exists>d' removed. dropPoorFeatures 0 (1 / 2) mixed_table = Inr (d', removed) \<and>
      Text ''XX'' \<in> set removed \<and> Text ''XX'' \<notin> set (index d'))"
proof -
  have h: "wf_frame mixed_table" "(1::nat) < length (rows mixed_table)"
    "list_all isnull (numeric_cells mixed_table (rows mixed_table ! 1))"
    "2 \<le> length (numeric_cells mixed_table (rows mixed_table ! 1))"
    "index mixed_table ! 1 = Text ''XX''"
    by (simp_all add: wf_frame_def mixed_table_def numeric_cells_def keep_cols_def isnull_def)
  show ?thesis
    using h dropPoorFeatures_all_missing_row [OF h(1) h(2) h(3) h(4)] by simp
qed

section \<open>Loading\<close>

lemma to_numeric_is_numeric: "is_numeric (to_numeric parse c)"
  by (simp add: to_numeric_def is_numeric_def split: cell.splits option.splits)

text \<open>
  With the identifier column present, loading fails with the duplicate-key ValueError
  exactly when two rows have the same identifier.
\<close>

lemma Preprocessing_init_duplicate_iff:
  assumes "position (Text ''Country Code'') (columns csv) = Some j"
  shows "(Preprocessing_init parse csv varlist = Inl ValueError) =
         (\<not> distinct (map (\<lambda>r. cell_at r j) (rows csv)))"
  using assms
  by (auto simp: Preprocessing_init_def set_index_def Let_def getitem_columns_def
      split: sum.splits if_splits)

text \<open>Whatever loads, every column but the first holds numbers or missing values only.\<close>

lemma Preprocessing_init_numeric_tail:
  assumes "Preprocessing_init parse csv varlist = Inr d" "r \<in> set (rows d)"
  shows "list_all is_numeric (drop 1 r)"
proof -
  from assms obtain r0 where "r = take 1 r0 @ map (to_numeric parse) (drop 1 r0)"
    by (auto simp: Preprocessing_init_def split: sum.splits if_splits)
  then have "drop 1 r = map (to_numeric parse) (drop 1 r0)"
    by (cases r0) simp_all
  then show ?thesis by (simp add: list_all_iff to_numeric_is_numeric)
qed

text \<open>With a field subset, the first column is the display name.\<close>

lemma pick_Cons:
  "pick (l # ls) cols xs = map snd (filter (\<lambda>p. fst p = l) (zip cols xs)) @ pick ls cols xs"
  by (simp add: pick_def)

lemma map_snd_filter_zip_self:
  "map snd (filter (\<lambda>p. fst p = l) (zip cols cols)) = filter (\<lambda>c. c = l) cols"
  by (induction cols) auto

lemma Preprocessing_init_name_first:
  assumes "Preprocessing_init parse csv varlist = Inr d" "varlist \<noteq> []"
  shows "columns d \<noteq> [] \<and> hd (columns d) = Text ''Country Name''"
proof -
  from assms obtain d0 where d0: "set_index (Text ''Country Code'') csv = Inr d0"
    and sub: "Text ''Country Name'' \<in> set (columns d0)"
    and cols: "columns d = pick (Text ''Country Name'' # varlist) (columns d0) (columns d0)"
    by (auto simp: Preprocessing_init_def getitem_columns_def split: sum.splits if_splits)
  from sub have ne: "filter (\<lambda>c. c = Text ''Country Name'') (columns d0) \<noteq> []"
    by (simp add: filter_empty_conv)
  then have "hd (filter (\<lambda>c. c = Text ''Country Name'') (columns d0)) = Text ''Country Name''"
    using hd_in_set [OF ne] by simp
  with ne show ?thesis
    unfolding cols pick_Cons map_snd_filter_zip_self by simp
qed

text \<open>
  C7. The spec's claim holds of the intent the code states (``convert all columns but
  Country Names to numeric type''), and the code misses it: without a field subset the
  conversion skips whatever column comes first. On a table whose display name is not the
  first column, the display name is coerced to missing and the first field keeps its
  unparseable text.
\<close>

theorem Preprocessing_init_name_not_first:
  "Preprocessing_init parse_decimal name_last_csv [] =
     Inr \<lparr>index = [Text ''IT''], columns = [Text ''GDP'', Text ''Country Name''],
          rows = [[Text ''..'', NaN]]\<rparr>"
  by (simp add: Preprocessing_init_def name_last_csv_def set_index_def Let_def cell_at_def
      drop_nth_def to_numeric_def parse_decimal_def digit_value_def)


section \<open>The table of groups\<close>

lemma concat_filter_partition:
  "distinct gs \<Longrightarrow> fst ` set zs \<subseteq> set gs \<Longrightarrow>
   mset (concat (map (\<lambda>x. filter (\<lambda>y. fst y = x) zs) gs)) = mset zs"
proof (induction gs arbitrary: zs)
  case Nil
  then show ?case by simp
next
  case (Cons g gs)
  let ?zs' = "filter (\<lambda>y. fst y \<noteq> g) zs"
  have same: "map (\<lambda>x. filter (\<lambda>y. fst y = x) zs) gs = map (\<lambda>x. filter (\<lambda>y. fst y = x) ?zs') gs"
  proof (rule map_cong [OF refl])
    fix x assume "x \<in> set gs"
    with Cons.prems(1) have "x \<noteq> g" by auto
    then show "filter (\<lambda>y. fst y = x) zs = filter (\<lambda>y. fst y = x) ?zs'"
      by (auto intro: filter_cong)
  qed
  from Cons.prems have "distinct gs" and "fst ` set ?zs' \<subseteq> set gs" by auto
  then have IH: "mset (concat (map (\<lambda>x. filter (\<lambda>y. fst y = x) ?zs') gs)) = mset ?zs'"
    by (rule Cons.IH)
  have "mset (concat (map (\<lambda>x. filter (\<lambda>y. fst y = x) zs) (g # gs))) =
      mset (filter (\<lambda>y. fst y = g) zs) + mset (concat (map (\<lambda>x. filter (\<lambda>y. fst y = x) zs) gs))"
    by simp
  also have "\<dots> = mset (filter (\<lambda>y. fst y = g) zs) + mset ?zs'"
    by (simp only: same IH)
  also have "\<dots> = mset zs"
    by (simp only: mset_filter) (rule multiset_partition [symmetric])
  finally show ?case .
qed

lemma clustersTable_Inr:
  assumes "clustersTable iter clustering names = Inr t"
  shows "map fst t = iter (map fst (sort_key fst (zip clustering names))) \<and>
         map snd t =
           map (\<lambda>x. map snd (filter (\<lambda>y. fst y = x) (zip clustering names)))
               (iter (map fst (sort_key fst (zip clustering names))))"
  using assms
  by (auto simp: clustersTable_def Let_def sort_key_stable split: if_splits)

text \<open>
  Whatever the order in which the set of labels is iterated (as long as it lists each
  element of the set once), \<open>clustersTable\<close> partitions the entities: every distinct label
  heads exactly one group, every group is the names of the entities with that label in
  index order (none empty), and the groups together are the names, each as often as it is
  in the table.
\<close>

lemma clustersTable_partition:
  assumes len: "length clustering = length names"
    and iter: "\<And>xs. distinct (iter xs) \<and> set (iter xs) = set xs"
    and t: "clustersTable iter clustering names = Inr t"
  shows "distinct (map fst t) \<and> set (map fst t) = set clustering \<and>
         mset (concat (map snd t)) = mset names \<and>
         (\<forall>(l, g) \<in> set t.
            g = map snd (filter (\<lambda>y. fst y = l) (zip clustering names)) \<and> g \<noteq> [])"
proof -
  let ?zs = "zip clustering names"
  let ?gs = "iter (map fst (sort_key fst ?zs))"
  let ?f = "\<lambda>x. map snd (filter (\<lambda>y. fst y = x) ?zs)"
  from clustersTable_Inr [OF t] have fst: "map fst t = ?gs" and snd: "map snd t = map ?f ?gs"
    by simp_all
  have img: "fst ` set ?zs = set clustering"
    using len by (metis map_fst_zip set_map)
  have gs: "distinct ?gs" "set ?gs = set clustering"
    using iter [of "map fst (sort_key fst ?zs)"] img by simp_all
  have A: "concat (map ?f ?gs) = map snd (concat (map (\<lambda>x. filter (\<lambda>y. fst y = x) ?zs) ?gs))"
    by (simp add: map_concat comp_def)
  have B: "mset (concat (map (\<lambda>x. filter (\<lambda>y. fst y = x) ?zs) ?gs)) = mset ?zs"
    using gs img by (intro concat_filter_partition) simp_all
  have "mset (concat (map ?f ?gs)) = mset (map snd ?zs)"
    by (simp only: A mset_map B)
  also have "\<dots> = mset names" using len by (simp only: map_snd_zip)
  finally have part: "mset (concat (map snd t)) = mset names" by (simp add: snd)
  have each: "\<forall>(l, g) \<in> set t. g = ?f l \<and> g \<noteq> []"
  proof (clarify)
    fix l g assume m: "(l, g) \<in> set t"
    then obtain k where k: "k < length t" "t ! k = (l, g)" by (auto simp: in_set_conv_nth)
    then have "l = map fst t ! k" "g = map snd t ! k" by simp_all
    moreover have "k < length ?gs" using k fst by (metis length_map)
    ultimately have g: "g = ?f l" and l: "l \<in> set ?gs" using fst snd by auto
    from l gs img have "l \<in> fst ` set ?zs" by simp
    then obtain y where "y \<in> set ?zs" "fst y = l" by auto
    then have "filter (\<lambda>y. fst y = l) ?zs \<noteq> []" by (auto simp: filter_empty_conv)
    with g show "g = ?f l \<and> g \<noteq> []" by simp
  qed
  from fst gs part each show ?thesis by simp
qed

lemma cpython_small_set_enumerates:
  "distinct (cpython_small_set xs) \<and> set (cpython_small_set xs) = set xs"
  by (simp add: cpython_small_set_def)

text \<open>The order of CPython on the sets it is a model of.\<close>

lemma cpython_small_set_examples:
  "cpython_small_set [-1, 0, 1] = [0, 1, -1]"
  "cpython_small_set [1, 8] = [8, 1]"
  "cpython_small_set [0, 1, 2] = [0, 1, 2]"
  by (simp_all add: cpython_small_set_def py_hash_def Let_def)

text \<open>
  C4. The labels of the table come out in the iteration order of a Python set, not in
  ascending order: the code sorts the pairs by label and then collects the labels in a set.
  For the labels \<open>-1, 0, 1\<close> (HDBSCAN's noise label and two clusters) CPython iterates the
  set as \<open>0, 1, -1\<close>, and the rows of the table come in that order.
\<close>

theorem clustersTable_labels_not_ascending:
  "clustersTable cpython_small_set [-1, 0, 1] [Text ''A'', Text ''B'', Text ''C''] =
     Inr [(0, [Text ''B'']), (1, [Text ''C'']), (-1, [Text ''A''])] \<and>
   \<not> sorted (map fst [(0::int, [Text ''B'']), (1, [Text ''C'']), (-1, [Text ''A''])])"
  by (simp add: clustersTable_def cpython_small_set_def py_hash_def Let_def)

lemma clustersTable_empty: "clustersTable cpython_small_set [] names = Inl ValueError"
  by (simp add: clustersTable_def cpython_small_set_def)


section \<open>What the clustering methods leave unchanged\<close>

lemma store_clustering_frame:
  assumes "store_clustering lib name clustering st = (r, st')"
  shows "df st' = df st \<and> df_pc st' = df_pc st \<and> country_names st' = country_names st \<and>
         random_state st' = random_state st \<and> min_BIC st' = min_BIC st \<and>
         (\<forall>n. n \<noteq> name \<longrightarrow> clusterings st' n = clusterings st n)"
  using assms by (auto simp: store_clustering_def split: sum.splits)

lemma kmeans_fit_frame:
  assumes "kmeans_fit lib k n_init d st = (r, st')"
  shows "df st' = df st \<and> df_pc st' = df_pc st \<and> country_names st' = country_names st \<and>
         clusterings st' = clusterings st \<and> min_BIC st' = min_BIC st"
  using assms by (auto simp: kmeans_fit_def split: prod.splits)

lemma hierarchical_loop_frame:
  assumes "hierarchical_loop lib d metric threshold mets st = (r, st')"
  shows "df st' = df st \<and> df_pc st' = df_pc st \<and> country_names st' = country_names st \<and>
         (\<forall>n. n \<notin> (\<lambda>met. ''hierarchical_'' @ met @ ''_'' @ metric) ` set mets \<longrightarrow>
              clusterings st' n = clusterings st n)"
  using assms
proof (induction mets arbitrary: st)
  case Nil
  then show ?case by simp
next
  case (Cons met mets)
  show ?case
  proof (cases "fastcluster_linkage lib d metric met")
    case (Inl e)
    with Cons.prems show ?thesis by auto
  next
    case links: (Inr links)
    show ?thesis
    proof (cases "hierarchy_fcluster lib links threshold")
      case (Inl e)
      with links Cons.prems show ?thesis by (auto simp: Let_def)
    next
      case labels: (Inr clustering)
      obtain r2 st2 where st2: "store_clustering lib (''hierarchical_'' @ met @ ''_'' @ metric)
          clustering (st\<lparr>link := Some links\<rparr>) = (r2, st2)"
        by (cases "store_clustering lib (''hierarchical_'' @ met @ ''_'' @ metric)
          clustering (st\<lparr>link := Some links\<rparr>)")
      note f2 = store_clustering_frame [OF st2]
      show ?thesis
      proof (cases r2)
        case (Inl e)
        with links labels st2 Cons.prems have "st' = st2" by (simp add: Let_def)
        with f2 show ?thesis by auto
      next
        case (Inr u)
        with links labels st2 Cons.prems
        have "hierarchical_loop lib d metric threshold mets st2 = (r, st')"
          by (simp add: Let_def)
        from Cons.IH [OF this] f2 show ?thesis by auto
      qed
    qed
  qed
qed

lemma kmeans_loop_frame:
  assumes "kmeans_loop lib n_init d ks st = (r, st')"
  shows "df st' = df st \<and> df_pc st' = df_pc st \<and> country_names st' = country_names st \<and>
         (\<forall>n. n \<notin> (\<lambda>k. ''kmeans'' @ str_int k) ` set ks \<longrightarrow>
              clusterings st' n = clusterings st n)"
  using assms
proof (induction ks arbitrary: st r st')
  case Nil
  then show ?case by simp
next
  case (Cons k ks)
  obtain r1 st1 where st1: "kmeans_fit lib k n_init d st = (r1, st1)"
    by (cases "kmeans_fit lib k n_init d st")
  note f1 = kmeans_fit_frame [OF st1]
  show ?case
  proof (cases r1)
    case (Inl e)
    with st1 Cons.prems have "st' = st1" by simp
    with f1 show ?thesis by auto
  next
    case labels: (Inr clustering)
    obtain r2 st2 where st2:
      "store_clustering lib (''kmeans'' @ str_int k) clustering st1 = (r2, st2)"
      by (cases "store_clustering lib (''kmeans'' @ str_int k) clustering st1")
    note f2 = store_clustering_frame [OF st2]
    have step: "df st2 = df st \<and> df_pc st2 = df_pc st \<and> country_names st2 = country_names st \<and>
         (\<forall>n. n \<noteq> ''kmeans'' @ str_int k \<longrightarrow> clusterings st2 n = clusterings st n)"
      using f1 f2 by simp
    show ?thesis
    proof (cases "\<exists>s c. r2 = Inr () \<and> silhouette_score lib d clustering = Inr s \<and>
        calinski_harabaz_score lib d clustering = Inr c")
      case False
      with st1 labels st2 Cons.prems have "st' = st2"
        by (auto split: sum.splits prod.splits)
      with step show ?thesis by auto
    next
      case True
      then obtain s c where ok: "r2 = Inr ()" "silhouette_score lib d clustering = Inr s"
        "calinski_harabaz_score lib d clustering = Inr c" by blast
      obtain r3 st3 where st3: "kmeans_loop lib n_init d ks st2 = (r3, st3)"
        by (cases "kmeans_loop lib n_init d ks st2")
      with st1 labels st2 ok Cons.prems have "st' = st3"
        by (auto split: sum.splits prod.splits)
      with Cons.IH [OF st3] step show ?thesis by auto
    qed
  qed
qed

lemma getPC_frame:
  "clusterings (snd (getPC lib st)) = clusterings st"
  by (simp add: getPC_def split: sum.splits)

lemma gmBIC_on_frame:
  assumes "gmBIC_on lib n_min n_max covariance_type n_init d st = (r, st')"
  shows "df st' = df st \<and> df_pc st' = df_pc st \<and> country_names st' = country_names st \<and>
         clusterings st' = clusterings st"
  using assms by (auto simp: gmBIC_on_def split: prod.splits sum.splits if_splits)

lemma hierarchicalClustering_frame:
  assumes "hierarchicalClustering lib metric method threshold on_PC st = (r, st')"
  shows "df st' = df st \<and> df_pc st' = df_pc st \<and> country_names st' = country_names st \<and>
         (\<forall>n. n \<notin> (\<lambda>met. ''hierarchical_'' @ met @ ''_'' @ metric) ` set (methods_of method) \<longrightarrow>
              clusterings st' n = clusterings st n)"
proof (cases "on_PC_frame on_PC st")
  case (Inl e)
  with assms show ?thesis by (simp add: hierarchicalClustering_def)
next
  case (Inr d)
  with assms have "hierarchical_loop lib d metric threshold (methods_of method) st = (r, st')"
    by (simp add: hierarchicalClustering_def hierarchicalClustering_on_def)
  then show ?thesis by (rule hierarchical_loop_frame)
qed

lemma hdbscan_frame:
  assumes "hdbscan lib min_cluster_size on_PC st = (r, st')"
  shows "df st' = df st \<and> df_pc st' = df_pc st \<and> country_names st' = country_names st \<and>
         (\<forall>n. n \<noteq> ''hdbscan'' \<longrightarrow> clusterings st' n = clusterings st n)"
  using assms
  by (auto simp: hdbscan_def hdbscan_on_def split: sum.splits dest: store_clustering_frame)

lemma bayesianGaussianMixture_frame:
  assumes "bayesianGaussianMixture lib n covariance_type n_init on_PC st = (r, st')"
  shows "df st' = df st \<and> df_pc st' = df_pc st \<and> country_names st' = country_names st \<and>
         (\<forall>m. m \<noteq> ''bayesian gm'' @ str_int n \<longrightarrow> clusterings st' m = clusterings st m)"
  using assms
  by (auto simp: bayesianGaussianMixture_def bayesianGaussianMixture_on_def
      split: sum.splits prod.splits dest: store_clustering_frame)

lemma gaussianMixture_frame:
  assumes "gaussianMixture lib n covariance_type n_init on_PC st = (r, st')"
  shows "df st' = df st \<and> df_pc st' = df_pc st \<and> country_names st' = country_names st \<and>
         (\<forall>m. m \<noteq> ''gm'' @ str_int n \<longrightarrow> clusterings st' m = clusterings st m)"
  using assms
  by (auto simp: gaussianMixture_def gaussianMixture_on_def
      split: sum.splits prod.splits dest: store_clustering_frame)

lemma gmBIC_frame:
  assumes "gmBIC lib n_min n_max covariance_type n_init on_PC st = (r, st')"
  shows "df st' = df st \<and> df_pc st' = df_pc st \<and> country_names st' = country_names st \<and>
         clusterings st' = clusterings st"
  using assms by (auto simp: gmBIC_def split: sum.splits dest: gmBIC_on_frame)

lemma kmeans_on_frame:
  assumes "kmeans_on lib n n_init evaluate d st = (r, st')"
  shows "df st' = df st \<and> df_pc st' = df_pc st \<and> country_names st' = country_names st \<and>
         (\<forall>m. m \<noteq> ''kmeans'' @ str_int n \<longrightarrow> clusterings st' m = clusterings st m)"
  using assms
  by (auto simp: kmeans_on_def split: sum.splits prod.splits if_splits
      dest!: store_clustering_frame kmeans_fit_frame)

lemma kmeans_frame:
  assumes "kmeans lib n on_PC n_init evaluate st = (r, st')"
  shows "df st' = df st \<and> df_pc st' = df_pc st \<and> country_names st' = country_names st \<and>
         (\<forall>m. m \<noteq> ''kmeans'' @ str_int n \<longrightarrow> clusterings st' m = clusterings st m)"
  using assms by (auto simp: kmeans_def split: sum.splits dest!: kmeans_on_frame)

lemma multipleKmeans_frame:
  assumes "multipleKmeans lib k_min k_max on_PC n_init st = (r, st')"
  shows "df st' = df st \<and> df_pc st' = df_pc st \<and> country_names st' = country_names st \<and>
         (\<forall>m. m \<notin> (\<lambda>k. ''kmeans'' @ str_int k) ` {k_min..<k_max} \<longrightarrow>
              clusterings st' m = clusterings st m)"
proof (cases "on_PC_frame on_PC st")
  case (Inl e)
  with assms show ?thesis by (simp add: multipleKmeans_def)
next
  case (Inr d)
  show ?thesis
  proof (cases "k_max - k_min < 0")
    case True
    with Inr assms show ?thesis by (simp add: multipleKmeans_def multipleKmeans_on_def)
  next
    case False
    with Inr assms have "kmeans_loop lib n_init d [k_min..k_max - 1] st = (r, st')"
      by (simp add: multipleKmeans_def multipleKmeans_on_def)
    from kmeans_loop_frame [OF this] have
      "df st' = df st \<and> df_pc st' = df_pc st \<and> country_names st' = country_names st \<and>
       (\<forall>m. m \<notin> (\<lambda>k. ''kmeans'' @ str_int k) ` set [k_min..k_max - 1] \<longrightarrow>
            clusterings st' m = clusterings st m)" .
    moreover have "set [k_min..k_max - 1] = {k_min..<k_max}" by auto
    ultimately show ?thesis by simp
  qed
qed

text \<open>Every call but \<open>getPC\<close> leaves the tables of the session as they are, and every call
  leaves the results stored under the names that are not its own.\<close>

lemma run_frame:
  "(c \<noteq> GetPC \<longrightarrow> df_pc (run lib c st) = df_pc st) \<and>
   (\<forall>n. n \<notin> run_names c \<longrightarrow> clusterings (run lib c st) n = clusterings st n)"
proof (cases c)
  case GetPC
  then show ?thesis by (simp add: getPC_frame)
next
  case (HierarchicalClustering metric meth threshold on_PC)
  then show ?thesis
    using hierarchicalClustering_frame [OF surjective_pairing, of lib metric meth threshold on_PC st]
    by simp
next
  case (Hdbscan m on_PC)
  then show ?thesis using hdbscan_frame [OF surjective_pairing, of lib m on_PC st] by simp
next
  case (BayesianGaussianMixture n cov n_init on_PC)
  then show ?thesis
    using bayesianGaussianMixture_frame [OF surjective_pairing, of lib n cov n_init on_PC st]
    by simp
next
  case (GaussianMixture n cov n_init on_PC)
  then show ?thesis
    using gaussianMixture_frame [OF surjective_pairing, of lib n cov n_init on_PC st] by simp
next
  case (GmBIC n_min n_max cov n_init on_PC)
  then show ?thesis
    using gmBIC_frame [OF surjective_pairing, of lib n_min n_max cov n_init on_PC st] by simp
next
  case (Kmeans n on_PC n_init evaluate)
  then show ?thesis
    using kmeans_frame [OF surjective_pairing, of lib n on_PC n_init evaluate st] by simp
next
  case (MultipleKmeans k_min k_max on_PC n_init)
  then show ?thesis
    using multipleKmeans_frame [OF surjective_pairing, of lib k_min k_max on_PC n_init st]
    by simp
qed

lemma run_all_frame:
  "(GetPC \<notin> set calls \<longrightarrow> df_pc (run_all lib calls st) = df_pc st) \<and>
   (\<forall>n. n \<notin> \<Union> (run_names ` set calls) \<longrightarrow>
        clusterings (run_all lib calls st) n = clusterings st n)"
  unfolding run_all_def
proof (induction calls arbitrary: st)
  case Nil
  show ?case by simp
next
  case (Cons c calls)
  from Cons.IH [of "run lib c st"] run_frame [of c lib st] show ?case by auto
qed


section \<open>The feature space of a fit\<close>







section \<open>Projection before the principal components\<close>

lemma Clustering_init_df_pc: "Clustering_init lib csv g = Inr st \<Longrightarrow> df_pc st = None"
  by (auto simp: Clustering_init_def Let_def split: sum.splits option.splits)

lemma on_PC_frame_missing: "df_pc st = None \<Longrightarrow> 0 < on_PC \<Longrightarrow> on_PC_frame on_PC st = Inl AttributeError"
  by (simp add: on_PC_frame_def)

text \<open>
  C3. In a session built by \<open>Clustering_init\<close> in which \<open>getPC\<close> has not been called,
  whatever else has been called, every clustering method called with \<open>on_PC > 0\<close> raises
  (the AttributeError of the missing attribute \<open>df_pc\<close>, which the spec calls
  PrecomputeRequiredError) and leaves the session as it was.
\<close>

theorem projection_before_getPC_raises:
  assumes "Clustering_init lib csv g = Inr st0" "GetPC \<notin> set calls"
    and "st = run_all lib calls st0" "0 < on_PC"
  shows "hierarchicalClustering lib metric method threshold on_PC st = (Inl AttributeError, st) \<and>
         hdbscan lib min_cluster_size on_PC st = (Inl AttributeError, st) \<and>
         bayesianGaussianMixture lib n covariance_type n_init on_PC st = (Inl AttributeError, st) \<and>
         gaussianMixture lib n covariance_type n_init on_PC st = (Inl AttributeError, st) \<and>
         gmBIC lib n_min n_max covariance_type n_init on_PC st = (Inl AttributeError, st) \<and>
         kmeans lib n on_PC n_init evaluate st = (Inl AttributeError, st) \<and>
         multipleKmeans lib n_min n_max on_PC n_init st = (Inl AttributeError, st)"
proof -
  from assms(1) have "df_pc st0 = None" by (rule Clustering_init_df_pc)
  with assms(2,3) have "df_pc st = None" using run_all_frame [of calls lib st0] by simp
  with assms(4) have "on_PC_frame on_PC st = Inl AttributeError"
    by (simp add: on_PC_frame_missing)
  then show ?thesis
    by (simp add: hierarchicalClustering_def hdbscan_def bayesianGaussianMixture_def
        gaussianMixture_def gmBIC_def kmeans_def multipleKmeans_def)
qed

lemma toy_init: "Clustering_init toy_library toy_csv (RandomState 7 0) = Inr toy_session"
  by (simp add: Clustering_init_def toy_library_def toy_csv_def toy_session_def toy_frame_def
      set_index_def Let_def cell_at_def drop_nth_def drop_columns_def keep_cols_def)

theorem projection_before_getPC_raises_witness:
  "Clustering_init toy_library toy_csv (RandomState 7 0) = Inr toy_session \<and>
   GetPC \<notin> set [Kmeans 2 0 50 True, Hdbscan 2 0] \<and> (0::int) < 1 \<and>
   clusterings (run_all toy_library [Kmeans 2 0 50 True, Hdbscan 2 0] toy_session) ''hdbscan'' \<noteq> None \<and>
   fst (kmeans toy_library 2 1 50 True
          (run_all toy_library [Kmeans 2 0 50 True, Hdbscan 2 0] toy_session)) = Inl AttributeError \<and>
   fst (hdbscan toy_library 2 1
          (run_all toy_library [Kmeans 2 0 50 True, Hdbscan 2 0] toy_session)) = Inl AttributeError"
proof -
  have h: "GetPC \<notin> set [Kmeans 2 0 50 True, Hdbscan 2 0]" "(0::int) < 1" by simp_all
  have s: "clusterings (run_all toy_library [Kmeans 2 0 50 True, Hdbscan 2 0] toy_session)
      ''hdbscan'' \<noteq> None"
    by (simp add: run_all_def kmeans_def kmeans_on_def kmeans_fit_def hdbscan_def hdbscan_on_def
        on_PC_frame_def store_clustering_def clustersTable_def cpython_small_set_def
        py_hash_def benchClustering_def toy_library_def toy_session_def toy_frame_def
        labels_in_turn_def offset_def drawn_def np_random_seed_def Let_def upt_rec
        split: sum.splits prod.splits)
  show ?thesis
    using toy_init h s projection_before_getPC_raises [OF toy_init h(1) refl h(2)]
    by simp
qed


section \<open>Repeating k-means\<close>

lemma kmeans_fit_any_state:
  "fst (kmeans_fit lib n n_init d st') = fst (kmeans_fit lib n n_init d st)"
  by (simp add: kmeans_fit_def split: prod.splits)

lemma kmeans_on_twice:
  "kmeans_on lib n n_init evaluate d (snd (kmeans_on lib n n_init evaluate d st)) =
   kmeans_on lib n n_init evaluate d st"
  by (auto simp: kmeans_on_def kmeans_fit_def store_clustering_def
      split: prod.splits sum.splits if_splits)

lemma kmeans_on_PC_frame:
  "on_PC_frame on_PC (snd (kmeans lib n on_PC' n_init evaluate st)) = on_PC_frame on_PC st"
  using kmeans_frame [OF surjective_pairing, of lib n on_PC' n_init evaluate st]
  by (simp add: on_PC_frame_def)

text \<open>
  C8. The labels \<open>kmeans\<close> fits do not depend on what the session or the random generator
  held before the call, since the generator is seeded with 42 right before the fit; so a
  second call of \<open>kmeans\<close> with the same arguments ends as the first did (the same labels,
  the same stored table, the same error if any) and leaves the session as the first call
  left it. Equal labels are equal up to a permutation of the label values.
\<close>

theorem kmeans_repeatable:
  "fst (kmeans_fit lib n n_init d st') = fst (kmeans_fit lib n n_init d st) \<and>
   kmeans lib n on_PC n_init evaluate (snd (kmeans lib n on_PC n_init evaluate st)) =
     kmeans lib n on_PC n_init evaluate st"
proof
  show "fst (kmeans_fit lib n n_init d st') = fst (kmeans_fit lib n n_init d st)"
    by (rule kmeans_fit_any_state)
next
  show "kmeans lib n on_PC n_init evaluate (snd (kmeans lib n on_PC n_init evaluate st)) =
     kmeans lib n on_PC n_init evaluate st"
  proof (cases "on_PC_frame on_PC st")
    case (Inl e)
    then show ?thesis by (simp add: kmeans_def)
  next
    case (Inr d)
    have "on_PC_frame on_PC (snd (kmeans lib n on_PC n_init evaluate st)) = Inr d"
      using Inr by (simp add: kmeans_on_PC_frame)
    moreover have "snd (kmeans lib n on_PC n_init evaluate st) =
        snd (kmeans_on lib n n_init evaluate d st)"
      using Inr by (simp add: kmeans_def)
    ultimately show ?thesis using Inr kmeans_on_twice [of lib n n_init evaluate d st]
      by (simp add: kmeans_def)
  qed
qed

text \<open>In the toy library the labels do depend on the generator; the seeding removes that.\<close>

lemma toy_kmeans_depends_on_generator:
  "fst (KMeans_fit_predict toy_library 2 50 (RandomState 7 0) toy_frame) = Inr [1, 0, 1, 0]"
  "fst (KMeans_fit_predict toy_library 2 50 (RandomState 42 0) toy_frame) = Inr [0, 1, 0, 1]"
  "fst (kmeans_fit toy_library 2 50 toy_frame toy_session) = Inr [0, 1, 0, 1]"
  by (simp_all add: toy_library_def toy_frame_def labels_in_turn_def offset_def kmeans_fit_def
      np_random_seed_def upt_rec)

section \<open>The results collection\<close>

text \<open>
  C9. A call changes no entry of the results collection but those under its own run names:
  for one call, and so for every sequence of calls, an entry under a name that none of the
  calls writes is what it was before; \<open>gmBIC\<close> has no run name and leaves the whole
  collection as it was.
\<close>

theorem clusterings_frame:
  "(\<forall>name. name \<notin> run_names c \<longrightarrow> clusterings (run lib c st) name = clusterings st name) \<and>
   (\<forall>name. name \<notin> \<Union> (run_names ` set calls) \<longrightarrow>
      clusterings (run_all lib calls st) name = clusterings st name) \<and>
   run_names (GmBIC n_min n_max covariance_type n_init on_PC) = {} \<and>
   clusterings (snd (gmBIC lib n_min n_max covariance_type n_init on_PC st)) = clusterings st"
  using run_frame [of c lib st] run_all_frame [of calls lib st]
    gmBIC_frame [OF surjective_pairing, of lib n_min n_max covariance_type n_init on_PC st]
  by simp

lemma toy_kmeans2:
  "clusterings (run toy_library (Kmeans 2 0 50 True) toy_session) ''kmeans2'' =
     Some [(0, [Text ''Aland'', Text ''Cland'']), (1, [Text ''Bland'', Text ''Dland''])]"
  by (simp add: kmeans_def kmeans_on_def kmeans_fit_def on_PC_frame_def store_clustering_def
      clustersTable_def cpython_small_set_def py_hash_def benchClustering_def toy_library_def
      toy_session_def toy_frame_def labels_in_turn_def offset_def drawn_def np_random_seed_def
      Let_def upt_rec str_int_def)

theorem clusterings_frame_witness:
  "''kmeans2'' \<notin> run_names (Hdbscan 2 0) \<and>
   ''kmeans2'' \<notin> \<Union> (run_names ` set [Hdbscan 2 0, GmBIC 1 5 ''full'' 50 0, Kmeans 3 0 50 True]) \<and>
   clusterings (run toy_library (Kmeans 2 0 50 True) toy_session) ''kmeans2'' =
     Some [(0, [Text ''Aland'', Text ''Cland'']), (1, [Text ''Bland'', Text ''Dland''])] \<and>
   clusterings (run toy_library (Hdbscan 2 0)
                  (run toy_library (Kmeans 2 0 50 True) toy_session)) ''kmeans2'' =
     Some [(0, [Text ''Aland'', Text ''Cland'']), (1, [Text ''Bland'', Text ''Dland''])] \<and>
   clusterings (run_all toy_library [Hdbscan 2 0, GmBIC 1 5 ''full'' 50 0, Kmeans 3 0 50 True]
                  (run toy_library (Kmeans 2 0 50 True) toy_session)) ''kmeans2'' =
     Some [(0, [Text ''Aland'', Text ''Cland'']), (1, [Text ''Bland'', Text ''Dland''])]"
proof -
  have h: "''kmeans2'' \<notin> run_names (Hdbscan 2 0)"
    "''kmeans2'' \<notin> \<Union> (run_names ` set [Hdbscan 2 0, GmBIC 1 5 ''full'' 50 0, Kmeans 3 0 50 True])"
    by (simp_all add: str_int_def)
  show ?thesis
    using h toy_kmeans2
      clusterings_frame [of "Hdbscan 2 0" toy_library
        "run toy_library (Kmeans 2 0 50 True) toy_session"
        "[Hdbscan 2 0, GmBIC 1 5 ''full'' 50 0, Kmeans 3 0 50 True]"]
    by simp
qed


section \<open>The BIC sweep\<close>

lemma amin_Min: "bs \<noteq> [] \<Longrightarrow> amin bs = Min (set bs)"
proof (cases bs)
  case Nil
  then show "bs \<noteq> [] \<Longrightarrow> amin bs = Min (set bs)" by simp
next
  case (Cons b bs')
  then show ?thesis using Min.set_eq_fold [of b bs'] by (simp add: amin_def)
qed

lemma first_position_less: "m \<in> set bs \<Longrightarrow> length (takeWhile (\<lambda>b. b \<noteq> m) bs) < length bs"
  by (induction bs) auto

lemma before_first_position:
  "\<forall>i < length (takeWhile (\<lambda>b. b \<noteq> m) bs). bs ! i \<noteq> m"
  by (metis (mono_tags, lifting) nth_mem set_takeWhileD takeWhile_nth)

lemma argmin_props:
  assumes "bs \<noteq> []"
  shows "argmin bs < length bs \<and> bs ! argmin bs = amin bs \<and> (\<forall>b \<in> set bs. amin bs \<le> b) \<and>
         (\<forall>i < argmin bs. bs ! i \<noteq> amin bs)"
proof -
  from assms have m: "amin bs \<in> set bs" and le: "\<forall>b \<in> set bs. amin bs \<le> b"
    by (simp_all add: amin_Min)
  from m have lt: "argmin bs < length bs"
    unfolding argmin_def by (rule first_position_less)
  then have "bs ! argmin bs = amin bs"
    unfolding argmin_def using nth_length_takeWhile [of "\<lambda>b. b \<noteq> amin bs" bs] by simp
  moreover have "\<forall>i < argmin bs. bs ! i \<noteq> amin bs"
    unfolding argmin_def by (rule before_first_position)
  ultimately show ?thesis using lt le by simp
qed

lemma fit_bics_length:
  "fit_bics lib covariance_type n_init d ns g = (Inr bics, g') \<Longrightarrow> length bics = length ns"
  by (induction ns arbitrary: g bics g') (auto split: prod.splits sum.splits)

lemma fit_bics_nth:
  "fit_bics lib covariance_type n_init d ns g = (Inr bics, g') \<Longrightarrow> i < length ns \<Longrightarrow>
   \<exists>g1 g2. GaussianMixture_fit_bic lib (ns ! i) covariance_type n_init g1 d = (Inr (bics ! i), g2)"
proof (induction ns arbitrary: g bics g' i)
  case Nil
  then show ?case by simp
next
  case (Cons n ns)
  then show ?case
    by (cases i) (auto split: prod.splits sum.splits, blast+)
qed

text \<open>
  What \<open>gmBIC\<close> records when every fit succeeds: the least BIC, and one more than its
  position in the sweep. The BIC at that position belongs to \<open>n_min\<close> plus the position, so
  the recorded count is the minimizing count exactly when \<open>n_min = 1\<close>.
\<close>

lemma gmBIC_records:
  assumes d: "on_PC_frame on_PC st = Inr d"
    and fits: "fit_bics lib covariance_type n_init d [n_min..n_max - 1] (random_state st) =
                 (Inr bics, g)"
    and lt: "n_min < n_max"
  shows "gmBIC lib n_min n_max covariance_type n_init on_PC st =
           (Inr (), st\<lparr>random_state := g, min_BIC := Some (int (argmin bics) + 1, amin bics)\<rparr>) \<and>
         length bics = nat (n_max - n_min) \<and>
         (\<forall>b \<in> set bics. amin bics \<le> b) \<and>
         (\<exists>g1 g2. GaussianMixture_fit_bic lib (n_min + int (argmin bics)) covariance_type n_init g1 d =
                    (Inr (amin bics), g2))"
proof -
  from fit_bics_length [OF fits] lt have len: "length bics = nat (n_max - n_min)" by simp
  with lt have ne: "bics \<noteq> []" by auto
  note a = argmin_props [OF ne]
  from a len have i: "argmin bics < length [n_min..n_max - 1]" by simp
  then have "[n_min..n_max - 1] ! argmin bics = n_min + int (argmin bics)" by simp
  with fit_bics_nth [OF fits i] a
  have "\<exists>g1 g2. GaussianMixture_fit_bic lib (n_min + int (argmin bics)) covariance_type n_init g1 d =
                    (Inr (amin bics), g2)" by simp
  with d fits ne len a show ?thesis by (simp add: gmBIC_def gmBIC_on_def)
qed

lemma gmBIC_right_from_one:
  assumes d: "on_PC_frame on_PC st = Inr d"
    and fits: "fit_bics lib covariance_type n_init d [1..n_max - 1] (random_state st) =
                 (Inr bics, g)"
    and lt: "1 < n_max"
  shows "\<exists>n b g1 g2. min_BIC (snd (gmBIC lib 1 n_max covariance_type n_init on_PC st)) = Some (n, b) \<and>
           1 \<le> n \<and> n < n_max \<and>
           GaussianMixture_fit_bic lib n covariance_type n_init g1 d = (Inr b, g2) \<and>
           (\<forall>b' \<in> set bics. b \<le> b')"
proof -
  note r = gmBIC_records [OF d fits lt]
  from r lt have ne: "bics \<noteq> []" by auto
  from argmin_props [OF ne] r have "argmin bics < nat (n_max - 1)" by simp
  then have "int (argmin bics) + 1 < n_max" by linarith
  with r show ?thesis by (auto simp: add.commute)
qed

text \<open>
  C1. \<open>gmBIC\<close> fits one mixture per count of the range and takes the least BIC, but the
  count it records is the position of the least BIC plus one, not plus \<open>n_min\<close>. Over the
  counts 2, 3, 4 with the BICs 1, 0, 1 it records the count 2 with the BIC 0, which is the
  BIC of the count 3.
\<close>

theorem gmBIC_records_wrong_count:
  "fit_bics toy_library ''full'' 50 toy_frame [2..5 - 1] (RandomState 7 0) =
     (Inr [1, 0, 1], RandomState 7 3) \<and>
   min_BIC (snd (gmBIC toy_library 2 5 ''full'' 50 0 toy_session)) = Some (2, 0)"
  by (simp add: gmBIC_def gmBIC_on_def on_PC_frame_def toy_library_def toy_session_def drawn_def
      argmin_def amin_def upto_rec1 numeral_2_eq_2 numeral_3_eq_3)


section \<open>Run names\<close>

lemma str_nat_nonempty: "str_nat n \<noteq> []"
  by (subst str_nat.simps) simp

lemma digit_inj:
  "a < 10 \<Longrightarrow> b < 10 \<Longrightarrow> ''0123456789'' ! a = ''0123456789'' ! b \<Longrightarrow> a = b"
proof -
  assume a: "a < 10" and b: "b < 10" and e: "''0123456789'' ! a = ''0123456789'' ! b"
  have "distinct ''0123456789''" by simp
  moreover have "a < length ''0123456789''" "b < length ''0123456789''" using a b by simp_all
  ultimately show "a = b" using e by (simp only: nth_eq_iff_index_eq)
qed

lemma digit_not_minus: "a < 10 \<Longrightarrow> ''0123456789'' ! a \<noteq> CHR ''-''"
proof -
  assume "a < 10"
  then have "''0123456789'' ! a \<in> set ''0123456789''" by (intro nth_mem) simp
  then show ?thesis by auto
qed

lemma str_nat_hd: "hd (str_nat n) \<noteq> CHR ''-''"
proof (induction n rule: str_nat.induct)
  case (1 n)
  show ?case
  proof (cases "n < 10")
    case True
    then show ?thesis using digit_not_minus [OF True] by (subst str_nat.simps) simp
  next
    case False
    with 1 have "hd (str_nat (n div 10)) \<noteq> CHR ''-''" by simp
    with False show ?thesis
      using str_nat_nonempty [of "n div 10"] by (subst str_nat.simps) simp
  qed
qed

lemma str_nat_inj: "str_nat m = str_nat n \<Longrightarrow> m = n"
proof (induction m arbitrary: n rule: str_nat.induct)
  case (1 m)
  have um: "str_nat m = (if m < 10 then [''0123456789'' ! m]
      else str_nat (m div 10) @ [''0123456789'' ! (m mod 10)])"
    by (rule str_nat.simps)
  have un: "str_nat n = (if n < 10 then [''0123456789'' ! n]
      else str_nat (n div 10) @ [''0123456789'' ! (n mod 10)])"
    by (rule str_nat.simps)
  show ?case
  proof (cases "m < 10")
    case m: True
    show ?thesis
    proof (cases "n < 10")
      case True
      with m um un "1.prems" show ?thesis by (simp add: digit_inj)
    next
      case False
      with m um un "1.prems" show ?thesis using str_nat_nonempty [of "n div 10"] by simp
    qed
  next
    case m: False
    show ?thesis
    proof (cases "n < 10")
      case True
      with m um un "1.prems" show ?thesis using str_nat_nonempty [of "m div 10"] by simp
    next
      case False
      with m um un "1.prems" have e: "str_nat (m div 10) = str_nat (n div 10)"
        and d: "''0123456789'' ! (m mod 10) = ''0123456789'' ! (n mod 10)" by simp_all
      from "1.IH" [OF m e] have "m div 10 = n div 10" .
      moreover from d have "m mod 10 = n mod 10" by (intro digit_inj) simp_all
      ultimately show ?thesis by (metis div_mult_mod_eq)
    qed
  qed
qed

lemma str_int_inj: "str_int i = str_int j \<Longrightarrow> i = j"
proof -
  assume e: "str_int i = str_int j"
  have neg: "\<And>a b. CHR ''-'' # str_nat a \<noteq> str_nat b"
    using str_nat_hd str_nat_nonempty by (metis list.sel(1))
  show "i = j"
  proof (cases "i < 0")
    case i: True
    show ?thesis
    proof (cases "j < 0")
      case True
      with i e have "nat (- i) = nat (- j)" by (simp add: str_int_def str_nat_inj)
      with i True show ?thesis by simp
    next
      case False
      with i e neg show ?thesis by (simp add: str_int_def)
    qed
  next
    case i: False
    show ?thesis
    proof (cases "j < 0")
      case True
      with i e neg [of "nat (- j)" "nat i"] show ?thesis by (simp add: str_int_def)
    next
      case False
      with i e have "nat i = nat j" by (simp add: str_int_def str_nat_inj)
      with i False show ?thesis by simp
    qed
  qed
qed

lemma kmeans_name_inj: "''kmeans'' @ str_int i = ''kmeans'' @ str_int j \<Longrightarrow> i = j"
  by (simp add: str_int_inj)


section \<open>The k-means sweep\<close>

text \<open>One round of the loop of \<open>multipleKmeans\<close> that does not raise is a call of \<open>kmeans\<close>.\<close>

lemma kmeans_loop_Cons:
  assumes "kmeans_loop lib n_init d (k # ks) st = (Inr (silh, cal_har), st')"
  shows "\<exists>clustering g table s c silh' cal_har'.
           KMeans_fit_predict lib k n_init (np_random_seed 42) d = (Inr clustering, g) \<and>
           clustersTable (set_iter lib) clustering (country_names st) = Inr table \<and>
           silhouette_score lib d clustering = Inr s \<and>
           calinski_harabaz_score lib d clustering = Inr c \<and>
           silh = s # silh' \<and> cal_har = c # cal_har' \<and>
           kmeans_loop lib n_init d ks
             (st\<lparr>random_state := g,
                 clusterings := (clusterings st)(''kmeans'' @ str_int k \<mapsto> table)\<rparr>) =
             (Inr (silh', cal_har'), st')"
  using assms
  by (auto simp: kmeans_fit_def store_clustering_def split: prod.splits sum.splits)

lemma kmeans_on_round:
  assumes "KMeans_fit_predict lib k n_init (np_random_seed 42) d = (Inr clustering, g)"
    "clustersTable (set_iter lib) clustering (country_names st) = Inr table"
    "silhouette_score lib d clustering = Inr s"
    "calinski_harabaz_score lib d clustering = Inr c"
  shows "kmeans_on lib k n_init evaluate d st =
           (Inr (), st\<lparr>random_state := g,
                       clusterings := (clusterings st)(''kmeans'' @ str_int k \<mapsto> table)\<rparr>)"
  using assms
  by (simp add: kmeans_on_def kmeans_fit_def store_clustering_def benchClustering_def)

lemma kmeans_loop_lengths:
  "kmeans_loop lib n_init d ks st = (Inr (silh, cal_har), st') \<Longrightarrow>
   length silh = length ks \<and> length cal_har = length ks"
proof (induction ks arbitrary: st silh cal_har)
  case Nil
  then show ?case by simp
next
  case (Cons k ks)
  from kmeans_loop_Cons [OF Cons.prems] Cons.IH show ?case by fastforce
qed

lemma kmeans_loop_as_calls:
  assumes "kmeans_loop lib n_init d ks st = (Inr (silh, cal_har), st')"
    and "on_PC_frame on_PC st = Inr d"
  shows "st' = kmeans_each lib ks on_PC n_init evaluate st"
  using assms
proof (induction ks arbitrary: st silh cal_har)
  case Nil
  then show ?case by (simp add: kmeans_each_def)
next
  case (Cons k ks)
  from kmeans_loop_Cons [OF Cons.prems(1)] obtain clustering g table s c silh' cal_har' where
    r: "KMeans_fit_predict lib k n_init (np_random_seed 42) d = (Inr clustering, g)"
      "clustersTable (set_iter lib) clustering (country_names st) = Inr table"
      "silhouette_score lib d clustering = Inr s"
      "calinski_harabaz_score lib d clustering = Inr c"
    and rest: "kmeans_loop lib n_init d ks
             (st\<lparr>random_state := g,
                 clusterings := (clusterings st)(''kmeans'' @ str_int k \<mapsto> table)\<rparr>) =
             (Inr (silh', cal_har'), st')"
    by blast
  let ?st2 = "st\<lparr>random_state := g,
                 clusterings := (clusterings st)(''kmeans'' @ str_int k \<mapsto> table)\<rparr>"
  have call: "kmeans lib k on_PC n_init evaluate st = (Inr (), ?st2)"
    using Cons.prems(2) kmeans_on_round [OF r] by (simp add: kmeans_def)
  have "on_PC_frame on_PC ?st2 = Inr d"
    using Cons.prems(2) by (auto simp: on_PC_frame_def split: if_splits)
  from Cons.IH [OF rest this] have "st' = kmeans_each lib ks on_PC n_init evaluate ?st2" .
  with call show ?case by (simp add: kmeans_each_def)
qed

lemma kmeans_loop_stores:
  assumes "kmeans_loop lib n_init d ks st = (Inr (silh, cal_har), st')"
    and "distinct ks" "k \<in> set ks"
  shows "\<exists>clustering g table.
           KMeans_fit_predict lib k n_init (np_random_seed 42) d = (Inr clustering, g) \<and>
           clustersTable (set_iter lib) clustering (country_names st) = Inr table \<and>
           clusterings st' (''kmeans'' @ str_int k) = Some table"
  using assms
proof (induction ks arbitrary: st silh cal_har)
  case Nil
  then show ?case by simp
next
  case (Cons k' ks)
  from kmeans_loop_Cons [OF Cons.prems(1)] obtain clustering g table s c silh' cal_har' where
    r: "KMeans_fit_predict lib k' n_init (np_random_seed 42) d = (Inr clustering, g)"
      "clustersTable (set_iter lib) clustering (country_names st) = Inr table"
    and rest: "kmeans_loop lib n_init d ks
             (st\<lparr>random_state := g,
                 clusterings := (clusterings st)(''kmeans'' @ str_int k' \<mapsto> table)\<rparr>) =
             (Inr (silh', cal_har'), st')"
    by blast
  let ?st2 = "st\<lparr>random_state := g,
                 clusterings := (clusterings st)(''kmeans'' @ str_int k' \<mapsto> table)\<rparr>"
  show ?case
  proof (cases "k = k'")
    case True
    with Cons.prems(2) have "k \<notin> set ks" by simp
    then have "''kmeans'' @ str_int k \<notin> (\<lambda>k. ''kmeans'' @ str_int k) ` set ks"
      by (auto dest: str_int_inj)
    with kmeans_loop_frame [OF rest]
    have "clusterings st' (''kmeans'' @ str_int k) = clusterings ?st2 (''kmeans'' @ str_int k)"
      by blast
    with True r show ?thesis by simp
  next
    case False
    with Cons.prems have "distinct ks" "k \<in> set ks" by simp_all
    from Cons.IH [OF rest this] show ?thesis by simp
  qed
qed

text \<open>
  C10. When \<open>multipleKmeans\<close> returns its two score arrays, they have one score per count
  of the range, the session is the one that calling \<open>kmeans\<close> once for each count of the
  range in ascending order leaves (whether or not those calls evaluate), and for every
  count \<open>k\<close> of the range the results collection holds under \<open>kmeans<k>\<close> the table of the
  labels that k-means, seeded with 42, fits for \<open>k\<close> clusters on the selected features.
\<close>

theorem multipleKmeans_stores_each:
  assumes "multipleKmeans lib k_min k_max on_PC n_init st = (Inr (silh, cal_har), st')"
  shows "length silh = nat (k_max - k_min) \<and> length cal_har = nat (k_max - k_min) \<and>
         st' = kmeans_each lib [k_min..k_max - 1] on_PC n_init evaluate st \<and>
         (\<forall>k \<in> {k_min..<k_max}.
            \<exists>d clustering g table.
              on_PC_frame on_PC st = Inr d \<and>
              KMeans_fit_predict lib k n_init (np_random_seed 42) d = (Inr clustering, g) \<and>
              clustersTable (set_iter lib) clustering (country_names st) = Inr table \<and>
              clusterings st' (''kmeans'' @ str_int k) = Some table)"
proof -
  from assms obtain d where d: "on_PC_frame on_PC st = Inr d"
    by (cases "on_PC_frame on_PC st") (simp_all add: multipleKmeans_def)
  with assms have loop: "kmeans_loop lib n_init d [k_min..k_max - 1] st = (Inr (silh, cal_har), st')"
    by (simp add: multipleKmeans_def multipleKmeans_on_def split: if_splits)
  have range: "set [k_min..k_max - 1] = {k_min..<k_max}" by auto
  from kmeans_loop_lengths [OF loop]
  have "length silh = nat (k_max - k_min) \<and> length cal_har = nat (k_max - k_min)" by simp
  moreover from kmeans_loop_as_calls [OF loop d]
  have "st' = kmeans_each lib [k_min..k_max - 1] on_PC n_init evaluate st" .
  moreover have "\<forall>k \<in> {k_min..<k_max}.
            \<exists>d clustering g table.
              on_PC_frame on_PC st = Inr d \<and>
              KMeans_fit_predict lib k n_init (np_random_seed 42) d = (Inr clustering, g) \<and>
              clustersTable (set_iter lib) clustering (country_names st) = Inr table \<and>
              clusterings st' (''kmeans'' @ str_int k) = Some table"
  proof
    fix k assume "k \<in> {k_min..<k_max}"
    with range have "k \<in> set [k_min..k_max - 1]" by simp
    from kmeans_loop_stores [OF loop _ this] d show "\<exists>d clustering g table.
              on_PC_frame on_PC st = Inr d \<and>
              KMeans_fit_predict lib k n_init (np_random_seed 42) d = (Inr clustering, g) \<and>
              clustersTable (set_iter lib) clustering (country_names st) = Inr table \<and>
              clusterings st' (''kmeans'' @ str_int k) = Some table"
      by simp
  qed
  ultimately show ?thesis by blast
qed

lemma toy_sweep:
  "fst (multipleKmeans toy_library 2 4 0 50 toy_session) = Inr ([1 / 2, 1 / 3], [2, 3])"
  by (simp add: multipleKmeans_def multipleKmeans_on_def kmeans_fit_def on_PC_frame_def
      store_clustering_def clustersTable_def cpython_small_set_def py_hash_def toy_library_def
      toy_session_def toy_frame_def labels_in_turn_def offset_def drawn_def np_random_seed_def
      Let_def upt_rec upto_rec1)

theorem multipleKmeans_stores_each_witness:
  "fst (multipleKmeans toy_library 2 4 0 50 toy_session) = Inr ([1 / 2, 1 / 3], [2, 3]) \<and>
   snd (multipleKmeans toy_library 2 4 0 50 toy_session) =
     kmeans_each toy_library [2..4 - 1] 0 50 True toy_session \<and>
   clusterings (snd (multipleKmeans toy_library 2 4 0 50 toy_session)) ''kmeans2'' =
     Some [(0, [Text ''Aland'', Text ''Cland'']), (1, [Text ''Bland'', Text ''Dland''])] \<and>
   clusterings (snd (multipleKmeans toy_library 2 4 0 50 toy_session)) ''kmeans3'' =
     Some [(0, [Text ''Aland'', Text ''Dland'']), (1, [Text ''Bland'']), (2, [Text ''Cland''])]"
proof -
  have run: "multipleKmeans toy_library 2 4 0 50 toy_session =
      (Inr ([1 / 2, 1 / 3], [2, 3]), snd (multipleKmeans toy_library 2 4 0 50 toy_session))"
    using toy_sweep by (simp add: prod_eq_iff)
  note t = multipleKmeans_stores_each [OF run, of True]
  have stored: "clusterings (snd (multipleKmeans toy_library 2 4 0 50 toy_session)) ''kmeans2'' =
     Some [(0, [Text ''Aland'', Text ''Cland'']), (1, [Text ''Bland'', Text ''Dland''])]"
    "clusterings (snd (multipleKmeans toy_library 2 4 0 50 toy_session)) ''kmeans3'' =
     Some [(0, [Text ''Aland'', Text ''Dland'']), (1, [Text ''Bland'']), (2, [Text ''Cland''])]"
    by (simp_all add: multipleKmeans_def multipleKmeans_on_def kmeans_fit_def on_PC_frame_def
      store_clustering_def clustersTable_def cpython_small_set_def py_hash_def toy_library_def
      toy_session_def toy_frame_def labels_in_turn_def offset_def drawn_def np_random_seed_def
      Let_def upt_rec upto_rec1 str_int_def)
  from t toy_sweep stored show ?thesis by simp
qed

text \<open>A sweep from one cluster stops at the first score: the silhouette of a single label
  raises, after the result for one cluster is stored and before any other is.\<close>

lemma toy_sweep_from_one:
  "fst (multipleKmeans toy_library 1 4 0 50 toy_session) = Inl ValueError"
  "clusterings (snd (multipleKmeans toy_library 1 4 0 50 toy_session)) ''kmeans1'' =
     Some [(0, [Text ''Aland'', Text ''Bland'', Text ''Cland'', Text ''Dland''])]"
  "clusterings (snd (multipleKmeans toy_library 1 4 0 50 toy_session)) ''kmeans2'' = None"
  by (simp_all add: multipleKmeans_def multipleKmeans_on_def kmeans_fit_def on_PC_frame_def
      store_clustering_def clustersTable_def cpython_small_set_def py_hash_def toy_library_def
      toy_session_def toy_frame_def labels_in_turn_def offset_def drawn_def np_random_seed_def
      Let_def upt_rec upto_rec1 str_int_def)

end
